theory Spec2Isabelle
  imports Complex_Main "HOL-Library.Sublist" "HOL-Library.Word"
begin

section \<open>JavaScript values used by the service\<close>

text \<open>
  Every exception of the service is a JavaScript error object: its \<open>name\<close> and its
  \<open>message\<close>.
\<close>

datatype error = Error string string

fun message :: "error \<Rightarrow> string" where
  "message (Error n m) = m"

text \<open>\<open>new Error(msg)\<close>\<close>

abbreviation new_Error :: "string \<Rightarrow> error" where
  "new_Error msg \<equiv> Error ''Error'' msg"

text \<open>\<open>String(err)\<close>, that is \<open>Error.prototype.toString\<close>.\<close>

fun error_string :: "error \<Rightarrow> string" where
  "error_string (Error n m) = (if n = [] then m else if m = [] then n else n @ '': '' @ m)"

text \<open>\<open>err?.message || String(err)\<close>\<close>

definition message_or_string :: "error \<Rightarrow> string" where
  "message_or_string err = (if message err = [] then error_string err else message err)"

type_synonym buffer = "8 word list"

text \<open>
  A nullable text column is a \<open>string option\<close>. JavaScript truthiness of such a
  value: \<open>null\<close> and the empty string are falsy.
\<close>

fun truthy :: "string option \<Rightarrow> string option" where
  "truthy None = None"
| "truthy (Some s) = (if s = [] then None else Some s)"

text \<open>\<open>a || b\<close> on nullable strings.\<close>

definition js_or :: "string option \<Rightarrow> string option \<Rightarrow> string option" where
  "js_or a b = (case truthy a of Some s \<Rightarrow> Some s | None \<Rightarrow> b)"

text \<open>
  \<open>String.prototype.replace\<close> with a string pattern: only the first occurrence is
  replaced (none of the replacement texts of the service contains a \<open>$\<close>).
\<close>

fun js_replace :: "string \<Rightarrow> string \<Rightarrow> string \<Rightarrow> string" where
  "js_replace [] pat rep = (if pat = [] then rep else [])"
| "js_replace (c # cs) pat rep =
     (if prefix pat (c # cs) then rep @ drop (length pat) (c # cs)
      else c # js_replace cs pat rep)"

text \<open>\<open>s.split(sep)\<close> for a one-character separator, and \<open>.pop()\<close> of its result.\<close>

fun js_split :: "char \<Rightarrow> string \<Rightarrow> string list" where
  "js_split sep [] = [[]]"
| "js_split sep (c # cs) =
     (if c = sep then [] # js_split sep cs
      else (case js_split sep cs of
              [] \<Rightarrow> [[c]]
            | seg # segs \<Rightarrow> (c # seg) # segs))"

definition js_pop :: "string list \<Rightarrow> string" where
  "js_pop segs = (case rev segs of [] \<Rightarrow> [] | seg # _ \<Rightarrow> seg)"

text \<open>A number in a template literal: its decimal digits.\<close>

definition digit_char :: "nat \<Rightarrow> char" where
  "digit_char d = ''0123456789'' ! d"

function decimal :: "nat \<Rightarrow> string" where
  "decimal n = (if n < 10 then [digit_char n] else decimal (n div 10) @ [digit_char (n mod 10)])"
  by pat_completeness auto
termination
  by (relation "measure (\<lambda>n. n)") auto

declare decimal.simps [simp del]

section \<open>Rows of the relational store\<close>

record account =
  acc_id :: string
  access_token :: "string option"
  refresh_token :: "string option"
  app_key :: "string option"
  app_secret :: "string option"
  bytes_used :: "rat option"
  last_used :: nat

record material =
  mat_id :: string
  storage_path :: "string option"
  attempts :: "int option"
  processing_status :: string
  processing_error :: "string option"
  processed_url :: "string option"
  file_url :: "string option"
  approval_status :: string

text \<open>\<open>material.attempts || 0\<close>: a null counter counts as 0.\<close>

definition attempts_or_0 :: "material \<Rightarrow> int" where
  "attempts_or_0 material = (case attempts material of None \<Rightarrow> 0 | Some n \<Rightarrow> n)"

text \<open>\<open>material.attempts >= 3\<close>: false for a null counter.\<close>

definition max_retries_reached :: "material \<Rightarrow> bool" where
  "max_retries_reached material = (case attempts material of None \<Rightarrow> False | Some n \<Rightarrow> 3 \<le> n)"

record file_record =
  material_id :: string
  dropbox_path :: string
  dropbox_url :: string
  uploaded_at :: nat

section \<open>The collaborators: store, blob storage and hosting provider\<close>

text \<open>
  Every call that leaves the process is recorded, in order, in a trace. The answer of a
  collaborator may depend on everything that happened before, so each of its operations
  is a function of the trace so far.
\<close>

datatype event =
    SelectMaterial string
  | UpdateMaterial string
  | SelectAccounts
  | SelectAccountById string
  | UpdateAccount string
  | InsertFileRecord string
  | RpcIncrementBytesUsed string rat
  | SelectBytesUsed string
  | StorageDownload "string option"
  | StorageRemove "string option"
  | UsersGetCurrentAccount string
  | OAuth2Token string string string
  | FilesUpload string string buffer
  | CreateSharedLink string string
  | ListSharedLinks string string

record world =
  dropbox_accounts :: "account list"
  study_materials :: "material list"
  file_records :: "file_record list"
  storage :: "string \<rightharpoonup> buffer"
  trace :: "event list"

text \<open>
  The environment: the process variables, the clock, the faults of the store and of the
  blob storage (\<open>Some err\<close>: the call answers with that error and changes nothing), and
  the answers of the hosting provider (\<open>Inl\<close>: the call fails with that error; for the
  token endpoint, with the description that \<open>refreshDropboxAccessToken\<close> reads off the
  failure).
\<close>

record env =
  DROPBOX_CLIENT_ID :: "string option"
  DROPBOX_CLIENT_SECRET :: "string option"
  MAX_DROPBOX_ACCOUNT_BYTES_MB :: "rat option"
  clock :: "event list \<Rightarrow> nat"
  store_fault :: "event list \<Rightarrow> event \<Rightarrow> error option"
  provider_current_account :: "event list \<Rightarrow> string \<Rightarrow> error option"
  provider_oauth2_token :: "event list \<Rightarrow> string \<Rightarrow> string \<Rightarrow> string \<Rightarrow> string + string"
  provider_upload :: "event list \<Rightarrow> string \<Rightarrow> string \<Rightarrow> buffer \<Rightarrow> error + string"
  provider_create_shared_link :: "event list \<Rightarrow> string \<Rightarrow> string \<Rightarrow> error + string"
  provider_list_shared_links :: "event list \<Rightarrow> string \<Rightarrow> string \<Rightarrow> error + string list"

definition record_event :: "event \<Rightarrow> world \<Rightarrow> world" where
  "record_event e w = w\<lparr>trace := trace w @ [e]\<rparr>"

subsection \<open>Store operations\<close>

text \<open>
  The store client never throws: each operation answers with \<open>{data, error}\<close>.
  \<open>store_call\<close> records the call and asks whether it fails.
\<close>

definition store_call :: "env \<Rightarrow> event \<Rightarrow> world \<Rightarrow> error option \<times> world" where
  "store_call env e w = (store_fault env (trace w) e, record_event e w)"

text \<open>\<open>from('dropbox_accounts').update(fields).eq('id', id)\<close>\<close>

definition update_accounts ::
  "env \<Rightarrow> string \<Rightarrow> (account \<Rightarrow> account) \<Rightarrow> world \<Rightarrow> error option \<times> world" where
  "update_accounts env ident f w =
     (case store_call env (UpdateAccount ident) w of
        (Some err, w1) \<Rightarrow> (Some err, w1)
      | (None, w1) \<Rightarrow>
          (None, w1\<lparr>dropbox_accounts :=
                      map (\<lambda>a. if acc_id a = ident then f a else a) (dropbox_accounts w1)\<rparr>))"

text \<open>\<open>from('dropbox_accounts').select('*').eq('id', id).single()\<close>: data only when
  exactly one row matches.\<close>

definition select_account_by_id :: "env \<Rightarrow> string \<Rightarrow> world \<Rightarrow> account option \<times> world" where
  "select_account_by_id env ident w =
     (case store_call env (SelectAccountById ident) w of
        (Some err, w1) \<Rightarrow> (None, w1)
      | (None, w1) \<Rightarrow>
          (case filter (\<lambda>a. acc_id a = ident) (dropbox_accounts w1) of
             [row] \<Rightarrow> (Some row, w1)
           | _ \<Rightarrow> (None, w1)))"

text \<open>\<open>from('dropbox_accounts').select('bytes_used').eq('id', id).single()\<close>\<close>

definition select_bytes_used :: "env \<Rightarrow> string \<Rightarrow> world \<Rightarrow> rat option option \<times> world" where
  "select_bytes_used env ident w =
     (case store_call env (SelectBytesUsed ident) w of
        (Some err, w1) \<Rightarrow> (None, w1)
      | (None, w1) \<Rightarrow>
          (case filter (\<lambda>a. acc_id a = ident) (dropbox_accounts w1) of
             [row] \<Rightarrow> (Some (bytes_used row), w1)
           | _ \<Rightarrow> (None, w1)))"

text \<open>\<open>from('study_materials').select('*').eq('id', id).single()\<close>\<close>

definition select_material :: "env \<Rightarrow> string \<Rightarrow> world \<Rightarrow> material option \<times> world" where
  "select_material env ident w =
     (case store_call env (SelectMaterial ident) w of
        (Some err, w1) \<Rightarrow> (None, w1)
      | (None, w1) \<Rightarrow>
          (case filter (\<lambda>m. mat_id m = ident) (study_materials w1) of
             [row] \<Rightarrow> (Some row, w1)
           | _ \<Rightarrow> (None, w1)))"

text \<open>\<open>from('study_materials').update(fields).eq('id', id)\<close>\<close>

definition update_materials ::
  "env \<Rightarrow> string \<Rightarrow> (material \<Rightarrow> material) \<Rightarrow> world \<Rightarrow> error option \<times> world" where
  "update_materials env ident f w =
     (case store_call env (UpdateMaterial ident) w of
        (Some err, w1) \<Rightarrow> (Some err, w1)
      | (None, w1) \<Rightarrow>
          (None, w1\<lparr>study_materials :=
                      map (\<lambda>m. if mat_id m = ident then f m else m) (study_materials w1)\<rparr>))"

text \<open>\<open>from('file_records').insert(row)\<close>\<close>

definition insert_file_record :: "env \<Rightarrow> file_record \<Rightarrow> world \<Rightarrow> error option \<times> world" where
  "insert_file_record env row w =
     (case store_call env (InsertFileRecord (material_id row)) w of
        (Some err, w1) \<Rightarrow> (Some err, w1)
      | (None, w1) \<Rightarrow> (None, w1\<lparr>file_records := file_records w1 @ [row]\<rparr>))"

text \<open>
  \<open>rpc('increment_dropbox_bytes_used', {acc_id, add_mb})\<close>: the stored procedure given
  in the source's comment, \<open>bytes_used = coalesce(bytes_used, 0) + add_mb\<close> on the rows
  of that id. A store without the procedure answers with an error.
\<close>

definition rpc_increment_dropbox_bytes_used ::
  "env \<Rightarrow> string \<Rightarrow> rat \<Rightarrow> world \<Rightarrow> error option \<times> world" where
  "rpc_increment_dropbox_bytes_used env ident add_mb w =
     (case store_call env (RpcIncrementBytesUsed ident add_mb) w of
        (Some err, w1) \<Rightarrow> (Some err, w1)
      | (None, w1) \<Rightarrow>
          (None, w1\<lparr>dropbox_accounts :=
                      map (\<lambda>a. if acc_id a = ident
                                then a\<lparr>bytes_used :=
                                         Some ((case bytes_used a of None \<Rightarrow> 0 | Some u \<Rightarrow> u) + add_mb)\<rparr>
                                else a)
                          (dropbox_accounts w1)\<rparr>))"

subsection \<open>Blob storage (bucket \<open>study-materials\<close>)\<close>

text \<open>
  \<open>storage.from('study-materials').download(path)\<close>: an object that is not there (and
  nothing is stored under a null path) is an error of the storage.
\<close>

definition storage_download ::
  "env \<Rightarrow> string option \<Rightarrow> world \<Rightarrow> (error + buffer) \<times> world" where
  "storage_download env path w =
     (case store_call env (StorageDownload path) w of
        (Some err, w1) \<Rightarrow> (Inl err, w1)
      | (None, w1) \<Rightarrow>
          (case path of
             None \<Rightarrow> (Inl (Error ''StorageApiError'' ''Object not found''), w1)
           | Some p \<Rightarrow>
               (case storage w1 p of
                  None \<Rightarrow> (Inl (Error ''StorageApiError'' ''Object not found''), w1)
                | Some bytes \<Rightarrow> (Inr bytes, w1))))"

text \<open>\<open>storage.from('study-materials').remove([path])\<close>\<close>

definition storage_remove :: "env \<Rightarrow> string option \<Rightarrow> world \<Rightarrow> error option \<times> world" where
  "storage_remove env path w =
     (case store_call env (StorageRemove path) w of
        (Some err, w1) \<Rightarrow> (Some err, w1)
      | (None, w1) \<Rightarrow>
          (case path of
             None \<Rightarrow> (None, w1)
           | Some p \<Rightarrow> (None, w1\<lparr>storage := (storage w1)(p := None)\<rparr>)))"

subsection \<open>Provider operations\<close>

definition usersGetCurrentAccount :: "env \<Rightarrow> string \<Rightarrow> world \<Rightarrow> (error + unit) \<times> world" where
  "usersGetCurrentAccount env accessToken w =
     ((case provider_current_account env (trace w) accessToken of
         None \<Rightarrow> Inr ()
       | Some err \<Rightarrow> Inl err),
      record_event (UsersGetCurrentAccount accessToken) w)"

definition post_oauth2_token ::
  "env \<Rightarrow> string \<Rightarrow> string \<Rightarrow> string \<Rightarrow> world \<Rightarrow> (string + string) \<times> world" where
  "post_oauth2_token env refreshToken clientId clientSecret w =
     (provider_oauth2_token env (trace w) refreshToken clientId clientSecret,
      record_event (OAuth2Token refreshToken clientId clientSecret) w)"

text \<open>\<open>filesUpload({path, contents})\<close>: the answer (\<open>Inr\<close>) carries
  \<open>result.path_lower\<close>.\<close>

definition filesUpload ::
  "env \<Rightarrow> string \<Rightarrow> string \<Rightarrow> buffer \<Rightarrow> world \<Rightarrow> (error + string) \<times> world" where
  "filesUpload env accessToken path contents w =
     (provider_upload env (trace w) accessToken path contents,
      record_event (FilesUpload accessToken path contents) w)"

text \<open>The provider's \<open>sharing/create_shared_link_with_settings\<close>: the answer carries
  \<open>url\<close>.\<close>

definition sharingCreateSharedLinkWithSettings ::
  "env \<Rightarrow> string \<Rightarrow> string \<Rightarrow> world \<Rightarrow> (error + string) \<times> world" where
  "sharingCreateSharedLinkWithSettings env accessToken path w =
     (provider_create_shared_link env (trace w) accessToken path,
      record_event (CreateSharedLink accessToken path) w)"

text \<open>The provider's \<open>sharing/list_shared_links\<close>: the answer carries the \<open>url\<close> of
  each of \<open>links\<close>.\<close>

definition sharingListSharedLinks ::
  "env \<Rightarrow> string \<Rightarrow> string \<Rightarrow> world \<Rightarrow> (error + string list) \<times> world" where
  "sharingListSharedLinks env accessToken path w =
     (provider_list_shared_links env (trace w) accessToken path,
      record_event (ListSharedLinks accessToken path) w)"

section \<open>Token lifecycle\<close>

text \<open>\<open>testDropboxToken\<close>: the body of the \<open>try\<close> and its \<open>catch\<close>.\<close>

definition testDropboxToken :: "env \<Rightarrow> string \<Rightarrow> world \<Rightarrow> (error + bool) \<times> world" where
  "testDropboxToken env accessToken w =
     (case usersGetCurrentAccount env accessToken w of
        (Inr _, w1) \<Rightarrow> (Inr True, w1)
      | (Inl err, w1) \<Rightarrow> (Inr False, w1))"

text \<open>
  \<open>refreshDropboxAccessToken\<close>: the provider's error description is wrapped in a new
  error.
\<close>

definition refreshDropboxAccessToken ::
  "env \<Rightarrow> string \<Rightarrow> string \<Rightarrow> string \<Rightarrow> world \<Rightarrow> (error + string) \<times> world" where
  "refreshDropboxAccessToken env refreshToken clientId clientSecret w =
     (case post_oauth2_token env refreshToken clientId clientSecret w of
        (Inr access_token_new, w1) \<Rightarrow> (Inr access_token_new, w1)
      | (Inl descr, w1) \<Rightarrow> (Inl (new_Error (''Failed to refresh Dropbox token: '' @ descr)), w1))"

text \<open>
  The condition \<open>accessToken && (await testDropboxToken(accessToken))\<close> of
  \<open>ensureAccessToken\<close>: the liveness call is made only for a truthy credential. The
  answer is the credential when the condition holds.
\<close>

definition accessTokenUsable ::
  "env \<Rightarrow> string option \<Rightarrow> world \<Rightarrow> (error + string option) \<times> world" where
  "accessTokenUsable env accessToken w =
     (case truthy accessToken of
        None \<Rightarrow> (Inr None, w)
      | Some tok \<Rightarrow>
          (case testDropboxToken env tok w of
             (Inl err, w1) \<Rightarrow> (Inl err, w1)
           | (Inr True, w1) \<Rightarrow> (Inr (Some tok), w1)
           | (Inr False, w1) \<Rightarrow> (Inr None, w1)))"

record token_result =
  res_accountRow :: account
  res_accessToken :: string

definition ensureAccessToken :: "env \<Rightarrow> account \<Rightarrow> world \<Rightarrow> (error + token_result) \<times> world" where
  "ensureAccessToken env accountRow w =
     (let accessToken = access_token accountRow;
          refreshToken = refresh_token accountRow;
          clientId = js_or (app_key accountRow) (DROPBOX_CLIENT_ID env);
          clientSecret = js_or (app_secret accountRow) (DROPBOX_CLIENT_SECRET env)
      in case accessTokenUsable env accessToken w of
           (Inl err, w1) \<Rightarrow> (Inl err, w1)
         | (Inr (Some tok), w1) \<Rightarrow>
             (case update_accounts env (acc_id accountRow)
                     (\<lambda>a. a\<lparr>last_used := clock env (trace w1)\<rparr>) w1 of
                (_, w2) \<Rightarrow> (Inr \<lparr>res_accountRow = accountRow, res_accessToken = tok\<rparr>, w2))
         | (Inr None, w1) \<Rightarrow>
             (case truthy refreshToken of
                None \<Rightarrow>
                  (Inl (new_Error (''Dropbox access token invalid and no refresh token for account id=''
                               @ acc_id accountRow)), w1)
              | Some rt \<Rightarrow>
                  (case (truthy clientId, truthy clientSecret) of
                     (Some cid, Some cs) \<Rightarrow>
                       (case refreshDropboxAccessToken env rt cid cs w1 of
                          (Inl err, w2) \<Rightarrow> (Inl err, w2)
                        | (Inr newAccessToken, w2) \<Rightarrow>
                            (case update_accounts env (acc_id accountRow)
                                    (\<lambda>a. a\<lparr>access_token := Some newAccessToken,
                                           last_used := clock env (trace w2)\<rparr>) w2 of
                               (Some err, w3) \<Rightarrow>
                                 (Inl (new_Error (''Failed to update refreshed access token in DB: ''
                                                  @ message err)), w3)
                             | (None, w3) \<Rightarrow>
                                 (Inr \<lparr>res_accountRow = accountRow\<lparr>access_token := Some newAccessToken\<rparr>,
                                       res_accessToken = newAccessToken\<rparr>, w3)))
                   | _ \<Rightarrow>
                       (Inl (new_Error ''Missing Dropbox client credentials for token refresh''), w1))))"

section \<open>Account rotation\<close>

text \<open>
  \<open>Number(process.env.MAX_DROPBOX_ACCOUNT_BYTES_MB || 0)\<close>: the variable is \<open>None\<close>
  when it is unset, empty or not a number; none of these is \<open>> 0\<close>. The filter
  \<open>lt('bytes_used', maxBytesMB)\<close> is evaluated by the store, where a null
  \<open>bytes_used\<close> is below nothing. \<open>order('last_used', {ascending: true})\<close> keeps the
  store's order among rows of equal \<open>last_used\<close>.
\<close>

definition selectDropboxAccount :: "env \<Rightarrow> world \<Rightarrow> (error + account) \<times> world" where
  "selectDropboxAccount env w =
     (let maxBytesMB = (case MAX_DROPBOX_ACCOUNT_BYTES_MB env of None \<Rightarrow> 0 | Some v \<Rightarrow> v);
          query = (if maxBytesMB > 0
                   then filter (\<lambda>a. case bytes_used a of None \<Rightarrow> False | Some u \<Rightarrow> u < maxBytesMB)
                          (dropbox_accounts w)
                   else dropbox_accounts w)
      in case store_call env SelectAccounts w of
           (Some err, w1) \<Rightarrow>
             (Inl (new_Error (''Failed to select dropbox account: '' @ message err)), w1)
         | (None, w1) \<Rightarrow>
             (case take 1 (sort_key last_used query) of
                [] \<Rightarrow> (Inl (new_Error ''No suitable Dropbox account found''), w1)
              | row # _ \<Rightarrow> (Inr row, w1)))"

definition getDropboxTokenFromDB :: "env \<Rightarrow> world \<Rightarrow> (error + string \<times> string) \<times> world" where
  "getDropboxTokenFromDB env w =
     (case selectDropboxAccount env w of
        (Inl err, w1) \<Rightarrow> (Inl err, w1)
      | (Inr account, w1) \<Rightarrow>
          (case ensureAccessToken env account w1 of
             (Inl err, w2) \<Rightarrow> (Inl err, w2)
           | (Inr res, w2) \<Rightarrow> (Inr (res_accessToken res, acc_id account), w2)))"

section \<open>Usage accounting\<close>

text \<open>
  \<open>Number((uploadBytes / (1024 * 1024)).toFixed(4))\<close>: the quotient by a power of two
  rounded to four decimals, half up. The usage is kept as an exact rational, as the
  store's \<open>numeric\<close> column keeps it.
\<close>

definition megabytes :: "nat \<Rightarrow> rat" where
  "megabytes uploadBytes =
     of_int ((int uploadBytes * 20000 + 1048576) div 2097152) / 10000"

text \<open>
  \<open>incrementDropboxBytesUsed\<close> never throws: the procedure call first, the
  read-modify-write when the procedure answers with an error.
\<close>

definition incrementDropboxBytesUsed :: "env \<Rightarrow> string \<Rightarrow> nat \<Rightarrow> world \<Rightarrow> world" where
  "incrementDropboxBytesUsed env accountId uploadBytes w =
     (let mb = megabytes uploadBytes
      in case rpc_increment_dropbox_bytes_used env accountId mb w of
           (None, w1) \<Rightarrow> w1
         | (Some err, w1) \<Rightarrow>
             (case select_bytes_used env accountId w1 of
                (data, w2) \<Rightarrow>
                  (let current = (case data of Some (Some u) \<Rightarrow> u | _ \<Rightarrow> 0);
                       newVal = current + mb
                   in snd (update_accounts env accountId (\<lambda>a. a\<lparr>bytes_used := Some newVal\<rparr>) w2))))"

section \<open>Processing endpoint\<close>

definition downloadFromSupabase ::
  "env \<Rightarrow> string option \<Rightarrow> world \<Rightarrow> (error + buffer) \<times> world" where
  "downloadFromSupabase env path w =
     (case storage_download env path w of
        (Inl err, w1) \<Rightarrow> (Inl err, w1)
      | (Inr bytes, w1) \<Rightarrow> (Inr bytes, w1))"

text \<open>
  Step 7 of the handler: the upload, and in its \<open>catch\<close> the second
  \<open>ensureAccessToken\<close> and the second upload. The answer is \<open>uploadResult.result.path_lower\<close>.
\<close>

definition uploadToDropbox ::
  "env \<Rightarrow> string \<Rightarrow> string \<Rightarrow> string \<Rightarrow> buffer \<Rightarrow> world \<Rightarrow> (error + string) \<times> world" where
  "uploadToDropbox env accountId dropboxToken dropboxPath compressedPDF w =
     (case filesUpload env dropboxToken dropboxPath compressedPDF w of
        (Inr path_lower, w1) \<Rightarrow> (Inr path_lower, w1)
      | (Inl err, w1) \<Rightarrow>
          (case select_account_by_id env accountId w1 of
             (None, w2) \<Rightarrow> (Inl err, w2)
           | (Some accountRow, w2) \<Rightarrow>
               (case ensureAccessToken env accountRow w2 of
                  (Inl err2, w3) \<Rightarrow> (Inl err2, w3)
                | (Inr refreshed, w3) \<Rightarrow>
                    filesUpload env (res_accessToken refreshed) dropboxPath compressedPDF w3)))"

text \<open>
  Steps 7 to 9 of the handler, from \<open>new Dropbox({ accessToken: dropboxToken })\<close> on:
  the upload, the shared link asked for through the client \<open>dbx\<close> of \<open>dropboxToken\<close>,
  the \<open>file_records\<close> row, the usage, the material's row and the removal of the source
  bytes. The answers of the store to its \<open>insert\<close>, \<open>update\<close> and \<open>remove\<close> calls are
  not looked at.
\<close>

definition uploadAndPublish ::
  "env \<Rightarrow> string \<Rightarrow> material \<Rightarrow> string \<Rightarrow> string \<Rightarrow> string \<Rightarrow> buffer \<Rightarrow> world
     \<Rightarrow> (error + string) \<times> world" where
  "uploadAndPublish env ident material accountId dropboxToken dropboxPath compressedPDF w =
     (case uploadToDropbox env accountId dropboxToken dropboxPath compressedPDF w of
        (Inl err, w1) \<Rightarrow> (Inl err, w1)
      | (Inr path_lower, w1) \<Rightarrow>
     (case sharingCreateSharedLinkWithSettings env dropboxToken path_lower w1 of
        (Inl err, w2) \<Rightarrow> (Inl err, w2)
      | (Inr url, w2) \<Rightarrow>
     (let dropboxUrl = js_replace url ''?dl=0'' ''?dl=1''
      in case insert_file_record env
                \<lparr>material_id = ident, dropbox_path = dropboxPath, dropbox_url = dropboxUrl,
                 uploaded_at = clock env (trace w2)\<rparr> w2 of
        (_, w3) \<Rightarrow>
     (let w4 = incrementDropboxBytesUsed env accountId (length compressedPDF) w3
      in case update_materials env ident
                (\<lambda>m. m\<lparr>processed_url := Some dropboxUrl, file_url := Some dropboxUrl,
                       processing_status := ''done'', approval_status := ''approved''\<rparr>) w4 of
        (_, w5) \<Rightarrow>
     (case storage_remove env (storage_path material) w5 of
        (_, w6) \<Rightarrow> (Inr dropboxUrl, w6))))))"

text \<open>
  The \<open>try\<close> block of the handler from step 3 on, for a material that was found and has
  fewer than three attempts. The answer of the store to the \<open>update\<close> is not looked at.
  The compression of step 5 is the identity. \<open>split('/')\<close> of a null \<open>storage_path\<close> is
  a \<open>TypeError\<close>.
\<close>

definition processMaterialSteps ::
  "env \<Rightarrow> string \<Rightarrow> material \<Rightarrow> world \<Rightarrow> (error + string) \<times> world" where
  "processMaterialSteps env ident material w =
     (case update_materials env ident
             (\<lambda>m. m\<lparr>attempts := Some (attempts_or_0 material + 1),
                    processing_status := ''processing'',
                    processing_error := None\<rparr>) w of
        (_, w1) \<Rightarrow>
     (case downloadFromSupabase env (storage_path material) w1 of
        (Inl err, w2) \<Rightarrow> (Inl err, w2)
      | (Inr pdfBuffer, w2) \<Rightarrow>
     (let compressedPDF = pdfBuffer
      in case getDropboxTokenFromDB env w2 of
        (Inl err, w3) \<Rightarrow> (Inl err, w3)
      | (Inr (dropboxToken, accountId), w3) \<Rightarrow>
     (case storage_path material of
        None \<Rightarrow>
          (Inl (Error ''TypeError'' ''Cannot read properties of null (reading 'split')''), w3)
      | Some sp \<Rightarrow>
     (let dropboxPath = ''/campus-files/'' @ decimal (clock env (trace w3)) @ ''_''
                        @ js_pop (js_split (CHR ''/'') sp)
      in uploadAndPublish env ident material accountId dropboxToken dropboxPath compressedPDF w3)))))"

text \<open>A response: the status and the fields of the JSON body.\<close>

datatype response = Json nat "(string \<times> string) list"

text \<open>
  \<open>app.post('/process-material/:id', verifyAdmin, ...)\<close> once \<open>verifyAdmin\<close> has let
  the request through.
\<close>

definition processMaterial :: "env \<Rightarrow> string \<Rightarrow> world \<Rightarrow> response \<times> world" where
  "processMaterial env ident w =
     (case select_material env ident w of
        (None, w1) \<Rightarrow> (Json 404 [(''error'', ''Material not found'')], w1)
      | (Some material, w1) \<Rightarrow>
          (if max_retries_reached material
           then (case update_materials env ident
                        (\<lambda>m. m\<lparr>processing_status := ''failed'',
                               processing_error := Some ''Max retries reached''\<rparr>) w1 of
                   (_, w2) \<Rightarrow> (Json 400 [(''error'', ''Max retries reached'')], w2))
           else (case processMaterialSteps env ident material w1 of
                   (Inr dropboxUrl, w2) \<Rightarrow>
                     (Json 200 [(''message'', ''Processing complete''), (''dropboxUrl'', dropboxUrl)], w2)
                 | (Inl err, w2) \<Rightarrow>
                     (case update_materials env ident
                             (\<lambda>m. m\<lparr>processing_status := ''failed'',
                                    processing_error := Some (message err)\<rparr>) w2 of
                        (_, w3) \<Rightarrow>
                          (Json 500 [(''error'', ''Processing failed''),
                                     (''details'', message_or_string err)], w3)))))"

section \<open>Shared link of the lighter upload path\<close>

text \<open>
  \<open>createSharedLinkDirect\<close>: the \<open>catch\<close> takes every failure of the creation call;
  \<open>links[0].url\<close> of an empty list is a \<open>TypeError\<close>.
\<close>

definition direct_url :: "string \<Rightarrow> string" where
  "direct_url url =
     js_replace (js_replace url ''www.dropbox.com'' ''dl.dropboxusercontent.com'') ''?dl=0'' ''''"

definition createSharedLinkDirect ::
  "env \<Rightarrow> string \<Rightarrow> string \<Rightarrow> world \<Rightarrow> (error + string) \<times> world" where
  "createSharedLinkDirect env token dropboxPath w =
     (case sharingCreateSharedLinkWithSettings env token dropboxPath w of
        (Inr url, w1) \<Rightarrow> (Inr (direct_url url), w1)
      | (Inl e, w1) \<Rightarrow>
          (case sharingListSharedLinks env token dropboxPath w1 of
             (Inl e2, w2) \<Rightarrow> (Inl e2, w2)
           | (Inr links, w2) \<Rightarrow>
               (case links of
                  [] \<Rightarrow>
                    (Inl (Error ''TypeError''
                            ''Cannot read properties of undefined (reading 'url')''), w2)
                | link # _ \<Rightarrow> (Inr (direct_url link), w2))))"

section \<open>Observations on a run\<close>

text \<open>The calls of a trace that exchange a refresh credential.\<close>

fun refresh_call :: "event \<Rightarrow> bool" where
  "refresh_call (OAuth2Token _ _ _) = True"
| "refresh_call _ = False"

definition refresh_calls :: "world \<Rightarrow> event list" where
  "refresh_calls w = filter refresh_call (trace w)"

text \<open>The calls of a trace to the provider's content interface: uploads and shared-link
  creations.\<close>

fun content_call :: "event \<Rightarrow> bool" where
  "content_call (FilesUpload _ _ _) = True"
| "content_call (CreateSharedLink _ _) = True"
| "content_call _ = False"

definition content_calls :: "world \<Rightarrow> event list" where
  "content_calls w = filter content_call (trace w)"

text \<open>What a run leaves of the jobs: everything of the world but the accounts and the
  trace.\<close>

definition job_state :: "world \<Rightarrow> material list \<times> file_record list \<times> (string \<rightharpoonup> buffer)" where
  "job_state w = (study_materials w, file_records w, storage w)"

definition accounts_only :: "world \<Rightarrow> world \<Rightarrow> bool" where
  "accounts_only w w' \<longleftrightarrow> job_state w' = job_state w \<and> content_calls w' = content_calls w"

text \<open>The liveness call that \<open>ensureAccessToken\<close> makes for a row, and whether the row's
  access credential is absent (null or empty) or fails that call.\<close>

definition liveness_calls :: "account \<Rightarrow> event list" where
  "liveness_calls accountRow =
     (case truthy (access_token accountRow) of
        None \<Rightarrow> []
      | Some tok \<Rightarrow> [UsersGetCurrentAccount tok])"

definition credential_unusable :: "env \<Rightarrow> account \<Rightarrow> event list \<Rightarrow> bool" where
  "credential_unusable env accountRow tr =
     (case truthy (access_token accountRow) of
        None \<Rightarrow> True
      | Some tok \<Rightarrow> provider_current_account env tr tok \<noteq> None)"

text \<open>The credential that a caller of \<open>ensureAccessToken\<close> gets hold of.\<close>

fun returned_credential :: "error + token_result \<Rightarrow> string option" where
  "returned_credential (Inl err) = None"
| "returned_credential (Inr res) = Some (res_accessToken res)"

text \<open>The \<open>catch\<close> of the first upload up to the second one: the row fetched again by
  id (the first error is thrown again when there is none) and the credential that
  \<open>ensureAccessToken\<close> answers for it.\<close>

definition retry_credential :: "env \<Rightarrow> string \<Rightarrow> error \<Rightarrow> world \<Rightarrow> (error + string) \<times> world" where
  "retry_credential env accountId err w =
     (case select_account_by_id env accountId w of
        (None, w2) \<Rightarrow> (Inl err, w2)
      | (Some accountRow, w2) \<Rightarrow>
          (case ensureAccessToken env accountRow w2 of
             (Inl err2, w3) \<Rightarrow> (Inl err2, w3)
           | (Inr refreshed, w3) \<Rightarrow> (Inr (res_accessToken refreshed), w3)))"

text \<open>The rows that the rotation query keeps: all of them unless a positive ceiling is
  configured, and then those with a usage below it.\<close>

definition within_quota :: "env \<Rightarrow> account \<Rightarrow> bool" where
  "within_quota env a =
     (case MAX_DROPBOX_ACCOUNT_BYTES_MB env of
        None \<Rightarrow> True
      | Some quota \<Rightarrow>
          (if 0 < quota then (case bytes_used a of None \<Rightarrow> False | Some u \<Rightarrow> u < quota)
           else True))"

section \<open>Sample worlds\<close>

definition demo_env :: env where
  "demo_env =
     \<lparr>DROPBOX_CLIENT_ID = Some ''id0'',
      DROPBOX_CLIENT_SECRET = Some ''sec0'',
      MAX_DROPBOX_ACCOUNT_BYTES_MB = None,
      clock = (\<lambda>tr. length tr),
      store_fault = (\<lambda>tr e. None),
      provider_current_account =
        (\<lambda>tr tok. if tok = ''live'' then None
                  else Some (Error ''DropboxResponseError'' ''expired_access_token'')),
      provider_oauth2_token =
        (\<lambda>tr rt cid cs. if rt = ''r1'' then Inr ''fresh'' else Inl ''invalid_grant''),
      provider_upload = (\<lambda>tr tok path contents. Inr path),
      provider_create_shared_link =
        (\<lambda>tr tok path. Inr (''https://www.dropbox.com/s'' @ path @ ''?dl=0'')),
      provider_list_shared_links = (\<lambda>tr tok path. Inr [])\<rparr>"

definition demo_account :: account where
  "demo_account =
     \<lparr>acc_id = ''a1'', access_token = Some ''live'', refresh_token = Some ''r1'',
      app_key = Some ''key1'', app_secret = None, bytes_used = Some 5, last_used = 7\<rparr>"

definition stale_account :: account where
  "stale_account = demo_account\<lparr>access_token := Some ''stale''\<rparr>"

definition demo_material :: material where
  "demo_material =
     \<lparr>mat_id = ''abc'', storage_path = Some ''materials/x.pdf'', attempts = Some 0,
      processing_status = ''pending'', processing_error = None, processed_url = None,
      file_url = None, approval_status = ''pending''\<rparr>"

definition demo_world :: world where
  "demo_world =
     \<lparr>dropbox_accounts = [demo_account],
      study_materials = [demo_material],
      file_records = [],
      storage = [''materials/x.pdf'' \<mapsto> [37, 80, 68, 70]],
      trace = []\<rparr>"

definition stale_world :: world where
  "stale_world = demo_world\<lparr>dropbox_accounts := [stale_account]\<rparr>"

text \<open>A store that refuses every write to the accounts.\<close>

definition write_fault_env :: env where
  "write_fault_env =
     demo_env\<lparr>store_fault :=
       (\<lambda>tr e. case e of UpdateAccount _ \<Rightarrow> Some (Error ''PostgrestError'' ''connection lost'')
                 | _ \<Rightarrow> None)\<rparr>"

text \<open>A provider that rejects the first upload of a run and takes the next one.\<close>

definition flaky_env :: env where
  "flaky_env =
     demo_env\<lparr>provider_upload :=
       (\<lambda>tr tok path contents.
          if filter content_call tr = []
          then Inl (Error ''DropboxResponseError'' ''too_many_write_operations'')
          else Inr path)\<rparr>"

text \<open>A provider that rejects every upload.\<close>

definition full_env :: env where
  "full_env =
     demo_env\<lparr>provider_upload :=
       (\<lambda>tr tok path contents. Inl (Error ''DropboxResponseError'' ''insufficient_space''))\<rparr>"

text \<open>A provider that takes uploads with the credential \<open>fresh\<close> only.\<close>

definition fresh_only_env :: env where
  "fresh_only_env =
     demo_env\<lparr>provider_upload :=
       (\<lambda>tr tok path contents.
          if tok = ''fresh'' then Inr path
          else Inl (Error ''DropboxResponseError'' ''expired_access_token''))\<rparr>"

text \<open>A provider for which the path has a shared link already.\<close>

definition conflict_env :: env where
  "conflict_env =
     demo_env\<lparr>provider_create_shared_link :=
                (\<lambda>tr tok path. Inl (Error ''AxiosError'' ''shared_link_already_exists'')),
              provider_list_shared_links :=
                (\<lambda>tr tok path. Inr [''https://www.dropbox.com/s/k/x.pdf?dl=0''])\<rparr>"

text \<open>A ceiling of 10 and three accounts, the least recently used one above it.\<close>

definition quota_env :: env where
  "quota_env = demo_env\<lparr>MAX_DROPBOX_ACCOUNT_BYTES_MB := Some 10\<rparr>"

definition quota_world :: world where
  "quota_world =
     demo_world\<lparr>dropbox_accounts :=
       [demo_account\<lparr>acc_id := ''a1'', bytes_used := Some 12, last_used := 1\<rparr>,
        demo_account\<lparr>acc_id := ''a2'', bytes_used := Some 5, last_used := 7\<rparr>,
        demo_account\<lparr>acc_id := ''a3'', bytes_used := Some 3, last_used := 4\<rparr>]\<rparr>"

text \<open>A job that has used its three attempts.\<close>

definition maxed_material :: material where
  "maxed_material = demo_material\<lparr>attempts := Some 3, processing_status := ''failed''\<rparr>"

definition maxed_world :: world where
  "maxed_world = demo_world\<lparr>study_materials := [maxed_material]\<rparr>"

text \<open>The world in which the handler, run on \<open>demo_world\<close> for the job \<open>abc\<close>, reaches
  the upload of step 7.\<close>

definition upload_world :: world where
  "upload_world =
     demo_world
       \<lparr>dropbox_accounts := [demo_account\<lparr>last_used := 5\<rparr>],
        study_materials := [demo_material\<lparr>attempts := Some 1, processing_status := ''processing''\<rparr>],
        trace := [SelectMaterial ''abc'', UpdateMaterial ''abc'',
                  StorageDownload (Some ''materials/x.pdf''), SelectAccounts,
                  UsersGetCurrentAccount ''live'', UpdateAccount ''a1'']\<rparr>"

text \<open>A store that refuses the update of step 3 of the job \<open>abc\<close> and nothing else.\<close>

definition refused_step_env :: env where
  "refused_step_env =
     demo_env\<lparr>store_fault :=
       (\<lambda>tr e. case e of
                  UpdateMaterial _ \<Rightarrow>
                    (if tr = [SelectMaterial ''abc''] then Some (Error ''PostgrestError'' ''timeout'')
                     else None)
                | _ \<Rightarrow> None)\<rparr>"

section \<open>Evaluation of the model\<close>

lemma decimal_digit: "n < 10 \<Longrightarrow> decimal n = [digit_char n]"
  by (simp add: decimal.simps)

lemma decimal_more: "\<not> n < 10 \<Longrightarrow> decimal n = decimal (n div 10) @ [digit_char (n mod 10)]"
  by (subst decimal.simps) simp

lemmas call_defs = store_call_def record_event_def update_accounts_def usersGetCurrentAccount_def
  post_oauth2_token_def testDropboxToken_def refreshDropboxAccessToken_def accessTokenUsable_def

lemmas model_defs = processMaterial_def processMaterialSteps_def uploadAndPublish_def
  uploadToDropbox_def downloadFromSupabase_def incrementDropboxBytesUsed_def megabytes_def
  getDropboxTokenFromDB_def selectDropboxAccount_def ensureAccessToken_def
  createSharedLinkDirect_def direct_url_def sharingListSharedLinks_def
  sharingCreateSharedLinkWithSettings_def filesUpload_def storage_remove_def storage_download_def
  rpc_increment_dropbox_bytes_used_def insert_file_record_def update_materials_def
  select_material_def select_bytes_used_def select_account_by_id_def call_defs js_or_def
  js_pop_def digit_char_def decimal_digit decimal_more attempts_or_0_def max_retries_reached_def
  message_or_string_def
  Let_def

lemmas obs_defs = accounts_only_def job_state_def content_calls_def

lemmas sample_defs = demo_env_def demo_account_def stale_account_def demo_material_def
  demo_world_def stale_world_def write_fault_env_def flaky_env_def full_env_def
  fresh_only_env_def conflict_env_def quota_env_def quota_world_def maxed_material_def
  maxed_world_def

lemmas all_splits = option.splits sum.splits prod.splits bool.splits list.splits

section \<open>Token validity check\<close>

text \<open>
  Claim C10. For every credential, \<open>testDropboxToken\<close> never throws: its answer is a
  boolean, true when the provider's liveness call succeeds and false when that call fails,
  whatever the failure. It makes that one call and changes nothing else.
\<close>

theorem testDropboxToken_never_raises:
  "testDropboxToken env accessToken w =
     (Inr (provider_current_account env (trace w) accessToken = None),
      w\<lparr>trace := trace w @ [UsersGetCurrentAccount accessToken]\<rparr>)"
  by (simp add: testDropboxToken_def usersGetCurrentAccount_def record_event_def
      split: option.splits)

section \<open>The token lifecycle\<close>

lemma accessTokenUsable_unusable:
  "credential_unusable env accountRow (trace w) \<Longrightarrow>
   accessTokenUsable env (access_token accountRow) w =
     (Inr None, w\<lparr>trace := trace w @ liveness_calls accountRow\<rparr>)"
  by (auto simp: credential_unusable_def liveness_calls_def call_defs split: option.splits)

lemma js_or_precedence:
  "truthy (js_or a b) = Some v \<Longrightarrow> (case truthy a of Some k \<Rightarrow> v = k | None \<Rightarrow> b = Some v)"
  by (cases a; cases b) (auto simp: js_or_def split: if_splits)

text \<open>
  Claim C4. For every account whose access credential is present (not null, not empty) and
  passes the liveness check, \<open>ensureAccessToken\<close> answers with the same row and the same
  credential, makes no refresh call (its only calls are the liveness call and one update
  of the account), and what it changes in the store is the \<open>last_used\<close> of the rows of
  that account id, when the store takes the update.
\<close>

theorem ensureAccessToken_fast_path:
  assumes "truthy (access_token accountRow) = Some tok"
      and "provider_current_account env (trace w) tok = None"
  shows "ensureAccessToken env accountRow w =
           (Inr \<lparr>res_accountRow = accountRow, res_accessToken = tok\<rparr>,
            w\<lparr>dropbox_accounts :=
                 (case store_fault env (trace w @ [UsersGetCurrentAccount tok])
                         (UpdateAccount (acc_id accountRow)) of
                    Some msg \<Rightarrow> dropbox_accounts w
                  | None \<Rightarrow>
                      map (\<lambda>a. if acc_id a = acc_id accountRow
                                then a\<lparr>last_used := clock env (trace w @ [UsersGetCurrentAccount tok])\<rparr>
                                else a) (dropbox_accounts w)),
               trace := trace w @ [UsersGetCurrentAccount tok, UpdateAccount (acc_id accountRow)]\<rparr>)
       \<and> refresh_calls (snd (ensureAccessToken env accountRow w)) = refresh_calls w"
  using assms
  by (simp add: ensureAccessToken_def call_defs refresh_calls_def split: option.splits)

theorem ensureAccessToken_fast_path_witness:
  "truthy (access_token demo_account) = Some ''live''
   \<and> provider_current_account demo_env (trace demo_world) ''live'' = None
   \<and> ensureAccessToken demo_env demo_account demo_world =
        (Inr \<lparr>res_accountRow = demo_account, res_accessToken = ''live''\<rparr>,
         demo_world\<lparr>dropbox_accounts := [demo_account\<lparr>last_used := 1\<rparr>],
                    trace := [UsersGetCurrentAccount ''live'', UpdateAccount ''a1'']\<rparr>)
   \<and> refresh_calls (snd (ensureAccessToken demo_env demo_account demo_world)) = []"
  using ensureAccessToken_fast_path [of demo_account "''live''" demo_env demo_world]
  by (simp add: sample_defs refresh_calls_def)

text \<open>
  Claim C3. For every account whose access credential is absent or fails the liveness
  check, whose refresh credential is present and whose app key and secret resolve (the
  account's own value where it has one, the process-wide default otherwise): when the
  provider answers the refresh and the store takes the update, \<open>ensureAccessToken\<close> makes
  exactly one refresh call, with the resolved key and secret, writes the new access
  credential and the new \<open>last_used\<close> to the rows of that account id, and answers with
  the new credential.
\<close>

theorem ensureAccessToken_refresh_path:
  assumes "credential_unusable env accountRow (trace w)"
      and "truthy (refresh_token accountRow) = Some rt"
      and "truthy (js_or (app_key accountRow) (DROPBOX_CLIENT_ID env)) = Some cid"
      and "truthy (js_or (app_secret accountRow) (DROPBOX_CLIENT_SECRET env)) = Some cs"
      and "provider_oauth2_token env (trace w @ liveness_calls accountRow) rt cid cs
             = Inr newAccessToken"
      and "store_fault env (trace w @ liveness_calls accountRow @ [OAuth2Token rt cid cs])
             (UpdateAccount (acc_id accountRow)) = None"
  shows "ensureAccessToken env accountRow w =
           (Inr \<lparr>res_accountRow = accountRow\<lparr>access_token := Some newAccessToken\<rparr>,
                 res_accessToken = newAccessToken\<rparr>,
            w\<lparr>dropbox_accounts :=
                 map (\<lambda>a. if acc_id a = acc_id accountRow
                           then a\<lparr>access_token := Some newAccessToken,
                                  last_used := clock env (trace w @ liveness_calls accountRow
                                                           @ [OAuth2Token rt cid cs])\<rparr>
                           else a) (dropbox_accounts w),
               trace := trace w @ liveness_calls accountRow
                        @ [OAuth2Token rt cid cs, UpdateAccount (acc_id accountRow)]\<rparr>)
       \<and> refresh_calls (snd (ensureAccessToken env accountRow w))
           = refresh_calls w @ [OAuth2Token rt cid cs]
       \<and> (case truthy (app_key accountRow) of
             Some k \<Rightarrow> cid = k | None \<Rightarrow> DROPBOX_CLIENT_ID env = Some cid)
       \<and> (case truthy (app_secret accountRow) of
             Some k \<Rightarrow> cs = k | None \<Rightarrow> DROPBOX_CLIENT_SECRET env = Some cs)"
proof -
  have live: "filter refresh_call (liveness_calls accountRow) = []"
    by (simp add: liveness_calls_def split: option.splits)
  have run: "ensureAccessToken env accountRow w =
           (Inr \<lparr>res_accountRow = accountRow\<lparr>access_token := Some newAccessToken\<rparr>,
                 res_accessToken = newAccessToken\<rparr>,
            w\<lparr>dropbox_accounts :=
                 map (\<lambda>a. if acc_id a = acc_id accountRow
                           then a\<lparr>access_token := Some newAccessToken,
                                  last_used := clock env (trace w @ liveness_calls accountRow
                                                           @ [OAuth2Token rt cid cs])\<rparr>
                           else a) (dropbox_accounts w),
               trace := trace w @ liveness_calls accountRow
                        @ [OAuth2Token rt cid cs, UpdateAccount (acc_id accountRow)]\<rparr>)"
    using assms
    by (simp add: ensureAccessToken_def accessTokenUsable_unusable
          refreshDropboxAccessToken_def post_oauth2_token_def update_accounts_def store_call_def
          record_event_def)
  have calls: "refresh_calls (snd (ensureAccessToken env accountRow w))
                 = refresh_calls w @ [OAuth2Token rt cid cs]"
    by (simp add: run refresh_calls_def live)
  show ?thesis
    using run calls js_or_precedence [OF assms(3)] js_or_precedence [OF assms(4)] by simp
qed

theorem ensureAccessToken_refresh_path_witness:
  "credential_unusable demo_env stale_account (trace stale_world)
   \<and> truthy (refresh_token stale_account) = Some ''r1''
   \<and> ensureAccessToken demo_env stale_account stale_world =
        (Inr \<lparr>res_accountRow = stale_account\<lparr>access_token := Some ''fresh''\<rparr>,
              res_accessToken = ''fresh''\<rparr>,
         stale_world\<lparr>dropbox_accounts :=
                       [stale_account\<lparr>access_token := Some ''fresh'', last_used := 2\<rparr>],
                     trace := [UsersGetCurrentAccount ''stale'', OAuth2Token ''r1'' ''key1'' ''sec0'',
                               UpdateAccount ''a1'']\<rparr>)
   \<and> refresh_calls (snd (ensureAccessToken demo_env stale_account stale_world))
        = [OAuth2Token ''r1'' ''key1'' ''sec0'']"
  using ensureAccessToken_refresh_path
          [of demo_env stale_account stale_world "''r1''" "''key1''" "''sec0''" "''fresh''"]
  by (simp add: sample_defs credential_unusable_def liveness_calls_def js_or_def refresh_calls_def)

text \<open>
  Claim C1, as the code has it. When the refresh succeeds and the store then refuses the
  update, \<open>ensureAccessToken\<close> throws the error
  \<open>Failed to update refreshed access token in DB: \<close> followed by the store's message. The
  caller gets that error and no credential, and the store keeps its rows as they were: the
  new credential is lost.
\<close>

theorem ensureAccessToken_persist_failed:
  assumes "credential_unusable env accountRow (trace w)"
      and "truthy (refresh_token accountRow) = Some rt"
      and "truthy (js_or (app_key accountRow) (DROPBOX_CLIENT_ID env)) = Some cid"
      and "truthy (js_or (app_secret accountRow) (DROPBOX_CLIENT_SECRET env)) = Some cs"
      and "provider_oauth2_token env (trace w @ liveness_calls accountRow) rt cid cs
             = Inr newAccessToken"
      and "store_fault env (trace w @ liveness_calls accountRow @ [OAuth2Token rt cid cs])
             (UpdateAccount (acc_id accountRow)) = Some err"
  shows "ensureAccessToken env accountRow w =
           (Inl (new_Error (''Failed to update refreshed access token in DB: '' @ message err)),
            w\<lparr>trace := trace w @ liveness_calls accountRow
                        @ [OAuth2Token rt cid cs, UpdateAccount (acc_id accountRow)]\<rparr>)
         \<and> returned_credential (fst (ensureAccessToken env accountRow w)) = None"
  using assms
  by (simp add: ensureAccessToken_def accessTokenUsable_unusable
        refreshDropboxAccessToken_def post_oauth2_token_def update_accounts_def store_call_def
        record_event_def)

theorem ensureAccessToken_persist_failed_witness:
  "credential_unusable write_fault_env stale_account (trace stale_world)
   \<and> provider_oauth2_token write_fault_env [UsersGetCurrentAccount ''stale'']
        ''r1'' ''key1'' ''sec0'' = Inr ''fresh''
   \<and> ensureAccessToken write_fault_env stale_account stale_world =
        (Inl (new_Error ''Failed to update refreshed access token in DB: connection lost''),
         stale_world\<lparr>trace := [UsersGetCurrentAccount ''stale'', OAuth2Token ''r1'' ''key1'' ''sec0'',
                               UpdateAccount ''a1'']\<rparr>)"
  using ensureAccessToken_persist_failed
          [of write_fault_env stale_account stale_world "''r1''" "''key1''" "''sec0''" "''fresh''"
              "Error ''PostgrestError'' ''connection lost''"]
  by (simp add: sample_defs credential_unusable_def liveness_calls_def js_or_def)

text \<open>
  Claim C1, as the specification has it, fails: with a store that refuses the update, the
  refresh of the account \<open>a1\<close> yields the credential \<open>fresh\<close>, and the caller of
  \<open>ensureAccessToken\<close> gets the error and no credential.
\<close>

theorem ensureAccessToken_persist_failed_counterexample:
  "provider_oauth2_token write_fault_env [UsersGetCurrentAccount ''stale'']
     ''r1'' ''key1'' ''sec0'' = Inr ''fresh''
   \<and> fst (ensureAccessToken write_fault_env stale_account stale_world)
       = Inl (new_Error ''Failed to update refreshed access token in DB: connection lost'')
   \<and> returned_credential (fst (ensureAccessToken write_fault_env stale_account stale_world))
       \<noteq> Some ''fresh''"
  by (simp add: ensureAccessToken_def call_defs sample_defs js_or_def)

section \<open>Account rotation\<close>

lemma sort_key_head:
  assumes "sort_key f xs = y # ys"
  shows "y \<in> set xs" and "\<forall>a\<in>set xs. f y \<le> f a"
proof -
  have same: "set (sort_key f xs) = set xs" by simp
  then show "y \<in> set xs" using assms by (metis list.set_intros(1))
  have "sorted (map f (sort_key f xs))" by (rule sorted_sort_key)
  then have "\<forall>a\<in>set ys. f y \<le> f a" using assms by simp
  moreover have "set xs = insert y (set ys)"
    using assms same by (metis list.simps(15))
  ultimately show "\<forall>a\<in>set xs. f y \<le> f a" by auto
qed

lemma selected_query:
  "(if 0 < (case MAX_DROPBOX_ACCOUNT_BYTES_MB env of None \<Rightarrow> 0 | Some v \<Rightarrow> v)
    then filter (\<lambda>a. case bytes_used a of None \<Rightarrow> False
                      | Some u \<Rightarrow> u < (case MAX_DROPBOX_ACCOUNT_BYTES_MB env of None \<Rightarrow> 0 | Some v \<Rightarrow> v))
           rows
    else rows) = filter (within_quota env) rows"
  by (auto simp: within_quota_def split: option.splits intro!: filter_cong)

text \<open>
  Claim C7. When the store answers the rotation query, \<open>selectDropboxAccount\<close> changes
  nothing in the store (the world gains the query in its trace and nothing else); it
  answers with a row of the table that is within the quota and whose \<open>last_used\<close> is
  the least among the rows within the quota, and it fails with
  \<open>No suitable Dropbox account found\<close> exactly when no row is within the quota. With a
  configured (positive) ceiling, no account whose usage is at or above the ceiling is
  within the quota; with no ceiling, every account is.
\<close>

theorem selectDropboxAccount_policy:
  assumes "store_fault env (trace w) SelectAccounts = None"
  shows "snd (selectDropboxAccount env w) = w\<lparr>trace := trace w @ [SelectAccounts]\<rparr>
       \<and> (case fst (selectDropboxAccount env w) of
            Inr row \<Rightarrow>
              row \<in> set (dropbox_accounts w) \<and> within_quota env row
              \<and> (\<forall>a\<in>set (dropbox_accounts w). within_quota env a \<longrightarrow> last_used row \<le> last_used a)
          | Inl err \<Rightarrow>
              err = new_Error ''No suitable Dropbox account found''
              \<and> (\<forall>a\<in>set (dropbox_accounts w). \<not> within_quota env a))
       \<and> (\<forall>quota u a. MAX_DROPBOX_ACCOUNT_BYTES_MB env = Some quota \<and> 0 < quota
              \<and> bytes_used a = Some u \<and> quota \<le> u \<longrightarrow> \<not> within_quota env a)
       \<and> (MAX_DROPBOX_ACCOUNT_BYTES_MB env = None \<longrightarrow> (\<forall>a. within_quota env a))"
proof -
  let ?q = "filter (within_quota env) (dropbox_accounts w)"
  have sel: "selectDropboxAccount env w =
          (case take 1 (sort_key last_used ?q) of
             [] \<Rightarrow> (Inl (new_Error ''No suitable Dropbox account found''), record_event SelectAccounts w)
           | row # _ \<Rightarrow> (Inr row, record_event SelectAccounts w))"
    using assms
    by (simp add: selectDropboxAccount_def Let_def store_call_def selected_query)
  have world: "snd (selectDropboxAccount env w) = w\<lparr>trace := trace w @ [SelectAccounts]\<rparr>"
    by (simp add: sel record_event_def split: list.splits)
  have result: "case fst (selectDropboxAccount env w) of
            Inr row \<Rightarrow>
              row \<in> set (dropbox_accounts w) \<and> within_quota env row
              \<and> (\<forall>a\<in>set (dropbox_accounts w). within_quota env a \<longrightarrow> last_used row \<le> last_used a)
          | Inl err \<Rightarrow>
              err = new_Error ''No suitable Dropbox account found''
              \<and> (\<forall>a\<in>set (dropbox_accounts w). \<not> within_quota env a)"
  proof (cases "sort_key last_used ?q")
    case Nil
    then have "?q = []" by (metis length_sort list.size(3) length_0_conv)
    then have "\<forall>a\<in>set (dropbox_accounts w). \<not> within_quota env a"
      by (simp add: filter_empty_conv)
    then show ?thesis using Nil by (simp add: sel)
  next
    case (Cons row rest)
    from sort_key_head [OF Cons] have "row \<in> set ?q" and "\<forall>a\<in>set ?q. last_used row \<le> last_used a"
      by simp_all
    then show ?thesis using Cons by (simp add: sel)
  qed
  have quota: "\<forall>quota u a. MAX_DROPBOX_ACCOUNT_BYTES_MB env = Some quota \<and> 0 < quota
              \<and> bytes_used a = Some u \<and> quota \<le> u \<longrightarrow> \<not> within_quota env a"
    by (auto simp: within_quota_def)
  have none: "MAX_DROPBOX_ACCOUNT_BYTES_MB env = None \<longrightarrow> (\<forall>a. within_quota env a)"
    by (simp add: within_quota_def)
  show ?thesis
    by (rule conjI [OF world conjI [OF result conjI [OF quota none]]])
qed

theorem selectDropboxAccount_policy_witness:
  "store_fault quota_env (trace quota_world) SelectAccounts = None
   \<and> selectDropboxAccount quota_env quota_world =
       (Inr (demo_account\<lparr>acc_id := ''a3'', bytes_used := Some 3, last_used := 4\<rparr>),
        quota_world\<lparr>trace := [SelectAccounts]\<rparr>)
   \<and> \<not> within_quota quota_env (demo_account\<lparr>acc_id := ''a1'', bytes_used := Some 12, last_used := 1\<rparr>)
   \<and> selectDropboxAccount quota_env (quota_world\<lparr>dropbox_accounts := []\<rparr>) =
       (Inl (new_Error ''No suitable Dropbox account found''),
        quota_world\<lparr>dropbox_accounts := [], trace := [SelectAccounts]\<rparr>)"
  using selectDropboxAccount_policy [of quota_env quota_world]
    selectDropboxAccount_policy [of quota_env "quota_world\<lparr>dropbox_accounts := []\<rparr>"]
  by (simp add: sample_defs selectDropboxAccount_def within_quota_def call_defs)

section \<open>Shared link of the lighter upload path\<close>





section \<open>What each operation leaves unchanged\<close>

lemma accounts_only_trans: "accounts_only w w1 \<Longrightarrow> accounts_only w1 w2 \<Longrightarrow> accounts_only w w2"
  by (simp add: accounts_only_def)

lemma update_accounts_frame:
  "update_accounts env i f w = (r, w') \<Longrightarrow> accounts_only w w'"
  by (auto simp: obs_defs call_defs split: all_splits)

lemma ensureAccessToken_frame:
  "ensureAccessToken env a w = (r, w') \<Longrightarrow> accounts_only w w'"
  by (auto simp: ensureAccessToken_def obs_defs call_defs Let_def split: all_splits)

lemma selectDropboxAccount_frame:
  "selectDropboxAccount env w = (r, w') \<Longrightarrow> accounts_only w w'"
  by (auto simp: selectDropboxAccount_def obs_defs call_defs Let_def split: all_splits)

lemma getDropboxTokenFromDB_frame:
  "getDropboxTokenFromDB env w = (r, w') \<Longrightarrow> accounts_only w w'"
  by (auto simp: getDropboxTokenFromDB_def split: all_splits
      dest!: selectDropboxAccount_frame ensureAccessToken_frame intro: accounts_only_trans)

lemma select_account_by_id_frame:
  "select_account_by_id env i w = (r, w') \<Longrightarrow> accounts_only w w'"
  by (auto simp: select_account_by_id_def obs_defs call_defs split: all_splits)

lemma incrementDropboxBytesUsed_frame:
  "accounts_only w (incrementDropboxBytesUsed env i n w)"
  by (auto simp: incrementDropboxBytesUsed_def rpc_increment_dropbox_bytes_used_def
        select_bytes_used_def obs_defs call_defs Let_def split: all_splits)

lemma downloadFromSupabase_frame:
  "downloadFromSupabase env path w = (r, w') \<Longrightarrow> accounts_only w w'"
  by (auto simp: downloadFromSupabase_def storage_download_def obs_defs call_defs split: all_splits)

lemma retry_credential_frame:
  "retry_credential env i e w = (r, w') \<Longrightarrow> accounts_only w w'"
  by (auto simp: retry_credential_def split: all_splits
      dest!: select_account_by_id_frame ensureAccessToken_frame intro: accounts_only_trans)

lemma filesUpload_eq:
  "filesUpload env tok path c w = (r, w') \<Longrightarrow>
     job_state w' = job_state w \<and> content_calls w' = content_calls w @ [FilesUpload tok path c]"
  by (auto simp: filesUpload_def obs_defs call_defs split: all_splits)

lemma sharingCreate_eq:
  "sharingCreateSharedLinkWithSettings env tok path w = (r, w') \<Longrightarrow>
     job_state w' = job_state w \<and> content_calls w' = content_calls w @ [CreateSharedLink tok path]
     \<and> r = provider_create_shared_link env (trace w) tok path"
  by (auto simp: sharingCreateSharedLinkWithSettings_def obs_defs call_defs split: all_splits)

lemma uploadToDropbox_frame:
  "uploadToDropbox env acc tok path c w = (r, w') \<Longrightarrow> job_state w' = job_state w"
  by (auto simp: uploadToDropbox_def accounts_only_def split: all_splits
      dest!: filesUpload_eq select_account_by_id_frame ensureAccessToken_frame)

lemma insert_file_record_eq:
  "insert_file_record env row w = (r, w') \<Longrightarrow>
     study_materials w' = study_materials w \<and> storage w' = storage w
     \<and> content_calls w' = content_calls w
     \<and> file_records w' = (case store_fault env (trace w) (InsertFileRecord (material_id row)) of
                             None \<Rightarrow> file_records w @ [row] | Some m \<Rightarrow> file_records w)"
  by (auto simp: insert_file_record_def obs_defs call_defs split: all_splits)

lemma update_materials_eq:
  "update_materials env i f w = (r, w') \<Longrightarrow>
     file_records w' = file_records w \<and> storage w' = storage w
     \<and> content_calls w' = content_calls w
     \<and> study_materials w' = (case store_fault env (trace w) (UpdateMaterial i) of
                             None \<Rightarrow> map (\<lambda>m. if mat_id m = i then f m else m) (study_materials w)
                           | Some m \<Rightarrow> study_materials w)"
  by (auto simp: update_materials_def obs_defs call_defs split: all_splits)

lemma storage_remove_eq:
  "storage_remove env path w = (r, w') \<Longrightarrow>
     file_records w' = file_records w \<and> study_materials w' = study_materials w
     \<and> content_calls w' = content_calls w
     \<and> storage w' = (case store_fault env (trace w) (StorageRemove path) of
                       None \<Rightarrow> (case path of None \<Rightarrow> storage w | Some p \<Rightarrow> (storage w)(p := None))
                     | Some m \<Rightarrow> storage w)"
  by (auto simp: storage_remove_def obs_defs call_defs split: all_splits)

lemma select_material_world:
  "select_material env ident w = (r, w1) \<Longrightarrow> w1 = record_event (SelectMaterial ident) w"
  by (auto simp: select_material_def call_defs split: all_splits)

section \<open>Sample runs of the processing endpoint\<close>

lemma demo_run:
  "processMaterial demo_env ''abc'' demo_world =
     (Json 200 [(''message'', ''Processing complete''),
                (''dropboxUrl'', ''https://www.dropbox.com/s/campus-files/6_x.pdf?dl=1'')],
      demo_world
        \<lparr>dropbox_accounts := [demo_account\<lparr>last_used := 5\<rparr>],
         study_materials :=
           [demo_material
              \<lparr>attempts := Some 1, processing_status := ''done'',
               processed_url := Some ''https://www.dropbox.com/s/campus-files/6_x.pdf?dl=1'',
               file_url := Some ''https://www.dropbox.com/s/campus-files/6_x.pdf?dl=1'',
               approval_status := ''approved''\<rparr>],
         file_records :=
           [\<lparr>material_id = ''abc'', dropbox_path = ''/campus-files/6_x.pdf'',
             dropbox_url = ''https://www.dropbox.com/s/campus-files/6_x.pdf?dl=1'',
             uploaded_at = 8\<rparr>],
         storage := Map.empty,
         trace :=
           [SelectMaterial ''abc'', UpdateMaterial ''abc'',
            StorageDownload (Some ''materials/x.pdf''), SelectAccounts,
            UsersGetCurrentAccount ''live'', UpdateAccount ''a1'',
            FilesUpload ''live'' ''/campus-files/6_x.pdf'' [37, 80, 68, 70],
            CreateSharedLink ''live'' ''/campus-files/6_x.pdf'',
            InsertFileRecord ''abc'', RpcIncrementBytesUsed ''a1'' 0,
            UpdateMaterial ''abc'', StorageRemove (Some ''materials/x.pdf'')]\<rparr>)"
  by (simp add: model_defs sample_defs)

lemma flaky_run:
  "fst (processMaterial flaky_env ''abc'' demo_world) =
     Json 200 [(''message'', ''Processing complete''),
               (''dropboxUrl'', ''https://www.dropbox.com/s/campus-files/6_x.pdf?dl=1'')]"
  "trace (snd (processMaterial flaky_env ''abc'' demo_world)) =
     [SelectMaterial ''abc'', UpdateMaterial ''abc'',
      StorageDownload (Some ''materials/x.pdf''), SelectAccounts,
      UsersGetCurrentAccount ''live'', UpdateAccount ''a1'',
      FilesUpload ''live'' ''/campus-files/6_x.pdf'' [37, 80, 68, 70],
      SelectAccountById ''a1'', UsersGetCurrentAccount ''live'', UpdateAccount ''a1'',
      FilesUpload ''live'' ''/campus-files/6_x.pdf'' [37, 80, 68, 70],
      CreateSharedLink ''live'' ''/campus-files/6_x.pdf'',
      InsertFileRecord ''abc'', RpcIncrementBytesUsed ''a1'' 0,
      UpdateMaterial ''abc'', StorageRemove (Some ''materials/x.pdf'')]"
  by (simp_all add: model_defs sample_defs)

section \<open>The attempts counter\<close>

lemma map_attempts_update:
  "(\<And>m. attempts (f m) = attempts m) \<Longrightarrow>
   map attempts (map (\<lambda>m. if mat_id m = i then f m else m) ms) = map attempts ms"
  by (induction ms) simp_all

lemma update_materials_attempts:
  assumes "update_materials env i f w = (r, w')" and "\<And>m. attempts (f m) = attempts m"
  shows "map attempts (study_materials w') = map attempts (study_materials w)"
  using update_materials_eq [OF assms(1)] map_attempts_update [of f i, OF assms(2)]
  by (simp split: option.splits)

lemma uploadAndPublish_attempts:
  assumes "uploadAndPublish env ident material acc tok path c w = (r, w')"
  shows "map attempts (study_materials w') = map attempts (study_materials w)"
  using assms incrementDropboxBytesUsed_frame
  by (auto simp: uploadAndPublish_def Let_def obs_defs split: all_splits
      dest!: uploadToDropbox_frame sharingCreate_eq insert_file_record_eq storage_remove_eq
             update_materials_attempts)

lemma processMaterialSteps_attempts:
  assumes "processMaterialSteps env ident material w = (r, w')"
  shows "map attempts (study_materials w')
           = (case store_fault env (trace w) (UpdateMaterial ident) of
                None \<Rightarrow> map (\<lambda>m. if mat_id m = ident then Some (attempts_or_0 material + 1)
                                   else attempts m) (study_materials w)
              | Some msg \<Rightarrow> map attempts (study_materials w))"
proof -
  let ?f = "\<lambda>m. m\<lparr>attempts := Some (attempts_or_0 material + 1),
                    processing_status := ''processing'', processing_error := None\<rparr>"
  obtain r1 w1 where u: "update_materials env ident ?f w = (r1, w1)"
    by (cases "update_materials env ident ?f w")
  have rest: "map attempts (study_materials w') = map attempts (study_materials w1)"
    using assms u
    by (auto simp: processMaterialSteps_def Let_def obs_defs split: all_splits
        dest!: downloadFromSupabase_frame getDropboxTokenFromDB_frame uploadAndPublish_attempts)
  have "map attempts (map (\<lambda>m. if mat_id m = ident then ?f m else m) ms)
          = map (\<lambda>m. if mat_id m = ident then Some (attempts_or_0 material + 1) else attempts m) ms"
    for ms :: "material list"
    by (induction ms) simp_all
  then show ?thesis
    using rest update_materials_eq [OF u] by (simp split: option.splits)
qed

lemma processMaterial_attempts:
  assumes found: "select_material env ident w = (Some material, w1)"
      and open_job: "\<not> max_retries_reached material"
  shows "map attempts (study_materials (snd (processMaterial env ident w)))
           = map (\<lambda>m. if mat_id m = ident
                         \<and> store_fault env (trace w @ [SelectMaterial ident]) (UpdateMaterial ident) = None
                       then Some (attempts_or_0 material + 1) else attempts m)
               (study_materials w)"
proof -
  have w1: "w1 = record_event (SelectMaterial ident) w"
    using select_material_world [OF found] .
  obtain r2 w2 where st: "processMaterialSteps env ident material w1 = (r2, w2)"
    by (cases "processMaterialSteps env ident material w1")
  have a2: "map attempts (study_materials w2)
           = map (\<lambda>m. if mat_id m = ident
                         \<and> store_fault env (trace w @ [SelectMaterial ident]) (UpdateMaterial ident) = None
                       then Some (attempts_or_0 material + 1) else attempts m)
               (study_materials w)"
    using processMaterialSteps_attempts [OF st] w1
    by (auto simp: record_event_def split: option.splits)
  have "map attempts (study_materials (snd (processMaterial env ident w)))
          = map attempts (study_materials w2)"
    using found open_job st
    by (auto simp: processMaterial_def split: all_splits dest!: update_materials_attempts)
  then show ?thesis using a2 by simp
qed

lemma processMaterial_rejected:
  assumes found: "select_material env ident w = (Some material, w1)"
      and closed_job: "max_retries_reached material"
  shows "processMaterial env ident w =
           (Json 400 [(''error'', ''Max retries reached'')],
            w\<lparr>study_materials :=
                 (case store_fault env (trace w @ [SelectMaterial ident]) (UpdateMaterial ident) of
                    None \<Rightarrow> map (\<lambda>m. if mat_id m = ident
                                     then m\<lparr>processing_status := ''failed'',
                                            processing_error := Some ''Max retries reached''\<rparr>
                                     else m) (study_materials w)
                  | Some msg \<Rightarrow> study_materials w),
               trace := trace w @ [SelectMaterial ident, UpdateMaterial ident]\<rparr>)"
  using assms select_material_world [OF found]
  by (auto simp: processMaterial_def update_materials_def call_defs split: all_splits)

lemma max_retries_reached_iff: "max_retries_reached m \<longleftrightarrow> 3 \<le> attempts_or_0 m"
  by (simp add: max_retries_reached_def attempts_or_0_def split: option.splits)

lemma processMaterial_not_found:
  "fst (select_material env ident w) = None \<Longrightarrow>
   study_materials (snd (processMaterial env ident w)) = study_materials w"
  by (auto simp: processMaterial_def select_material_def call_defs split: all_splits)

lemma bounded_by_attempts:
  assumes "map attempts ms' = map g ms"
      and "\<And>m. m \<in> set ms \<Longrightarrow> (case g m of None \<Rightarrow> 0 | Some n \<Rightarrow> n) \<le> (3::int)"
  shows "\<forall>m\<in>set ms'. attempts_or_0 m \<le> 3"
proof
  fix m assume "m \<in> set ms'"
  then have "attempts m \<in> set (map attempts ms')" by simp
  then have "attempts m \<in> g ` set ms" using assms(1) by simp
  then obtain m0 where "m0 \<in> set ms" "attempts m = g m0" by auto
  then show "attempts_or_0 m \<le> 3" using assms(2) [of m0] by (simp add: attempts_or_0_def)
qed

lemma processMaterial_invariant:
  assumes inv: "\<forall>m\<in>set (study_materials w). attempts_or_0 m \<le> 3"
  shows "\<forall>m\<in>set (study_materials (snd (processMaterial env ident w))). attempts_or_0 m \<le> 3"
proof (cases "select_material env ident w")
  case (Pair r w1)
  show ?thesis
  proof (cases r)
    case None
    then show ?thesis using Pair processMaterial_not_found [of env ident w] inv by simp
  next
    case (Some material)
    with Pair have found: "select_material env ident w = (Some material, w1)" by simp
    show ?thesis
    proof (cases "max_retries_reached material")
      case True
      have "map attempts (study_materials (snd (processMaterial env ident w)))
              = map attempts (study_materials w)"
        using processMaterial_rejected [OF found True]
          map_attempts_update [of "\<lambda>m. m\<lparr>processing_status := ''failed'',
                                         processing_error := Some ''Max retries reached''\<rparr>"
                                  ident "study_materials w"]
        by (simp split: option.splits)
      then show ?thesis
        using inv by (intro bounded_by_attempts [where g = attempts and ms = "study_materials w"])
                     (auto simp: attempts_or_0_def)
    next
      case False
      then have lt: "attempts_or_0 material + 1 \<le> 3"
        by (simp add: max_retries_reached_iff)
      show ?thesis
        using inv lt
        by (intro bounded_by_attempts [OF processMaterial_attempts [OF found False]])
           (auto simp: attempts_or_0_def)
    qed
  qed
qed

text \<open>
  Claim C6, as the code has it. For a job that is found: when its counter is 3 or more,
  the handler answers 400 with the error \<open>Max retries reached\<close>, and its only calls are
  the two to the store, the read of the job and the update that marks it failed with that
  reason (no download, no upload, nothing else changes); otherwise the run leaves the
  job's counter at its old value plus one, whatever happens afterwards, when the store
  takes the update of step 3, and at its old value when the store refuses it; every other
  counter stays as it was. In any run, found or not, if no counter exceeded 3 before, none
  exceeds 3 after.
\<close>

theorem attempts_counter:
  assumes "select_material env ident w = (Some material, w1)"
  shows "(if max_retries_reached material
          then processMaterial env ident w =
                 (Json 400 [(''error'', ''Max retries reached'')],
                  w\<lparr>study_materials :=
                       (case store_fault env (trace w @ [SelectMaterial ident]) (UpdateMaterial ident) of
                          None \<Rightarrow> map (\<lambda>m. if mat_id m = ident
                                           then m\<lparr>processing_status := ''failed'',
                                                  processing_error := Some ''Max retries reached''\<rparr>
                                           else m) (study_materials w)
                        | Some msg \<Rightarrow> study_materials w),
                     trace := trace w @ [SelectMaterial ident, UpdateMaterial ident]\<rparr>)
          else map attempts (study_materials (snd (processMaterial env ident w)))
                 = map (\<lambda>m. if mat_id m = ident
                               \<and> store_fault env (trace w @ [SelectMaterial ident])
                                     (UpdateMaterial ident) = None
                             then Some (attempts_or_0 material + 1) else attempts m)
                     (study_materials w))
       \<and> max_retries_reached material = (3 \<le> attempts_or_0 material)
       \<and> ((\<forall>m\<in>set (study_materials w). attempts_or_0 m \<le> 3) \<longrightarrow>
            (\<forall>m\<in>set (study_materials (snd (processMaterial env ident w))). attempts_or_0 m \<le> 3))"
  using processMaterial_rejected [OF assms] processMaterial_attempts [OF assms]
    processMaterial_invariant [of w env ident] max_retries_reached_iff [of material]
  by (cases "max_retries_reached material") simp_all

theorem attempts_counter_witness:
  "select_material demo_env ''abc'' maxed_world
     = (Some maxed_material, record_event (SelectMaterial ''abc'') maxed_world)
   \<and> processMaterial demo_env ''abc'' maxed_world =
       (Json 400 [(''error'', ''Max retries reached'')],
        maxed_world\<lparr>study_materials :=
                      [maxed_material\<lparr>processing_error := Some ''Max retries reached''\<rparr>],
                    trace := [SelectMaterial ''abc'', UpdateMaterial ''abc'']\<rparr>)
   \<and> select_material demo_env ''abc'' demo_world
     = (Some demo_material, record_event (SelectMaterial ''abc'') demo_world)
   \<and> map attempts (study_materials (snd (processMaterial demo_env ''abc'' demo_world))) = [Some 1]"
  using attempts_counter [of demo_env "''abc''" maxed_world maxed_material
                             "record_event (SelectMaterial ''abc'') maxed_world"]
        attempts_counter [of demo_env "''abc''" demo_world demo_material
                             "record_event (SelectMaterial ''abc'') demo_world"]
  by (simp add: sample_defs select_material_def call_defs max_retries_reached_def
        attempts_or_0_def)

text \<open>
  Claim C6, as the specification has it, fails on the increment: the handler does not look
  at the answer of the store to the update of step 3. With a store that refuses that one
  update, the run for the job \<open>abc\<close> goes on to the download and the upload and answers
  200, and the counter is still 0.
\<close>

theorem attempts_counter_counterexample:
  "store_fault refused_step_env [SelectMaterial ''abc''] (UpdateMaterial ''abc'')
     = Some (Error ''PostgrestError'' ''timeout'')
   \<and> fst (processMaterial refused_step_env ''abc'' demo_world)
       = Json 200 [(''message'', ''Processing complete''),
                   (''dropboxUrl'', ''https://www.dropbox.com/s/campus-files/6_x.pdf?dl=1'')]
   \<and> map attempts (study_materials (snd (processMaterial refused_step_env ''abc'' demo_world)))
       = [Some 0]"
  by (simp add: model_defs sample_defs refused_step_env_def)

section \<open>A successful run\<close>

lemma uploadAndPublish_success:
  assumes run: "uploadAndPublish env ident material acc tok path c w = (Inr u, w')"
      and sp: "storage_path material = Some sp"
      and writes: "\<forall>tr. store_fault env tr (UpdateMaterial ident) = None"
                  "\<forall>tr. store_fault env tr (InsertFileRecord ident) = None"
                  "\<forall>tr. store_fault env tr (StorageRemove (Some sp)) = None"
  shows "\<exists>url tr path_lower t.
           provider_create_shared_link env tr tok path_lower = Inr url
         \<and> u = js_replace url ''?dl=0'' ''?dl=1''
         \<and> study_materials w' =
               map (\<lambda>m. if mat_id m = ident
                         then m\<lparr>processed_url := Some u, file_url := Some u,
                                processing_status := ''done'', approval_status := ''approved''\<rparr>
                         else m) (study_materials w)
         \<and> file_records w' = file_records w
               @ [\<lparr>material_id = ident, dropbox_path = path, dropbox_url = u, uploaded_at = t\<rparr>]
         \<and> storage w' = (storage w)(sp := None)"
proof -
  from run obtain pl w1 where up: "uploadToDropbox env acc tok path c w = (Inr pl, w1)"
    by (auto simp: uploadAndPublish_def split: all_splits)
  from run up obtain url w2
    where link: "sharingCreateSharedLinkWithSettings env tok pl w1 = (Inr url, w2)"
    by (auto simp: uploadAndPublish_def split: all_splits)
  have u: "u = js_replace url ''?dl=0'' ''?dl=1''"
    using run up link by (auto simp: uploadAndPublish_def Let_def split: all_splits)
  let ?row = "\<lparr>material_id = ident, dropbox_path = path, dropbox_url = u,
               uploaded_at = clock env (trace w2)\<rparr>"
  obtain r3 w3 where ins: "insert_file_record env ?row w2 = (r3, w3)"
    by (cases "insert_file_record env ?row w2")
  let ?w4 = "incrementDropboxBytesUsed env acc (length c) w3"
  let ?f = "\<lambda>m. m\<lparr>processed_url := Some u, file_url := Some u,
                    processing_status := ''done'', approval_status := ''approved''\<rparr>"
  obtain r5 w5 where upd: "update_materials env ident ?f ?w4 = (r5, w5)"
    by (cases "update_materials env ident ?f ?w4")
  obtain r6 w6 where rem: "storage_remove env (Some sp) w5 = (r6, w6)"
    by (cases "storage_remove env (Some sp) w5")
  have w': "w' = w6"
    using run up link ins upd rem sp u by (simp add: uploadAndPublish_def Let_def)
  have j1: "job_state w1 = job_state w" using uploadToDropbox_frame [OF up] .
  have j2: "job_state w2 = job_state w1" using sharingCreate_eq [OF link] by simp
  have j4: "job_state ?w4 = job_state w3"
    using incrementDropboxBytesUsed_frame [of w3 env acc "length c"] by (simp add: accounts_only_def)
  have url: "provider_create_shared_link env (trace w1) tok pl = Inr url"
    using sharingCreate_eq [OF link] by simp
  have "study_materials w' = map (\<lambda>m. if mat_id m = ident then ?f m else m) (study_materials w)"
    and "file_records w' = file_records w @ [?row]"
    and "storage w' = (storage w)(sp := None)"
    using w' j1 j2 j4 insert_file_record_eq [OF ins] update_materials_eq [OF upd]
      storage_remove_eq [OF rem] writes
    by (simp_all add: job_state_def)
  then show ?thesis using url u by blast
qed

lemma processMaterialSteps_success:
  assumes run: "processMaterialSteps env ident material w = (Inr u, w')"
      and sp: "storage_path material = Some sp"
      and writes: "\<forall>tr. store_fault env tr (UpdateMaterial ident) = None"
                  "\<forall>tr. store_fault env tr (InsertFileRecord ident) = None"
                  "\<forall>tr. store_fault env tr (StorageRemove (Some sp)) = None"
  shows "\<exists>url tr tok path_lower path t.
           provider_create_shared_link env tr tok path_lower = Inr url
         \<and> u = js_replace url ''?dl=0'' ''?dl=1''
         \<and> study_materials w' =
               map (\<lambda>m. if mat_id m = ident
                         then m\<lparr>attempts := Some (attempts_or_0 material + 1),
                                processing_status := ''done'', processing_error := None,
                                processed_url := Some u, file_url := Some u,
                                approval_status := ''approved''\<rparr>
                         else m) (study_materials w)
         \<and> file_records w' = file_records w
               @ [\<lparr>material_id = ident, dropbox_path = path, dropbox_url = u, uploaded_at = t\<rparr>]
         \<and> storage w' = (storage w)(sp := None)"
proof -
  let ?f = "\<lambda>m. m\<lparr>attempts := Some (attempts_or_0 material + 1),
                    processing_status := ''processing'', processing_error := None\<rparr>"
  obtain r1 w1 where u1: "update_materials env ident ?f w = (r1, w1)"
    by (cases "update_materials env ident ?f w")
  from run u1 obtain pdf w2
    where dl: "downloadFromSupabase env (storage_path material) w1 = (Inr pdf, w2)"
    by (auto simp: processMaterialSteps_def split: all_splits)
  from run u1 dl obtain tok acc w3 where tk: "getDropboxTokenFromDB env w2 = (Inr (tok, acc), w3)"
    by (auto simp: processMaterialSteps_def Let_def split: all_splits)
  let ?path = "''/campus-files/'' @ decimal (clock env (trace w3)) @ ''_''
               @ js_pop (js_split (CHR ''/'') sp)"
  have pub: "uploadAndPublish env ident material acc tok ?path pdf w3 = (Inr u, w')"
    using run u1 dl tk sp by (simp add: processMaterialSteps_def Let_def)
  have j: "job_state w3 = job_state w1"
    using downloadFromSupabase_frame [OF dl] getDropboxTokenFromDB_frame [OF tk]
    by (simp add: accounts_only_def)
  have m1: "study_materials w1 = map (\<lambda>m. if mat_id m = ident then ?f m else m) (study_materials w)"
    and f1: "file_records w1 = file_records w" and s1: "storage w1 = storage w"
    using update_materials_eq [OF u1] writes by simp_all
  from uploadAndPublish_success [OF pub sp writes]
  obtain url tr path_lower t where
      a: "provider_create_shared_link env tr tok path_lower = Inr url"
      and b: "u = js_replace url ''?dl=0'' ''?dl=1''"
      and c: "study_materials w' =
               map (\<lambda>m. if mat_id m = ident
                         then m\<lparr>processed_url := Some u, file_url := Some u,
                                processing_status := ''done'', approval_status := ''approved''\<rparr>
                         else m) (study_materials w3)"
      and d: "file_records w' = file_records w3
               @ [\<lparr>material_id = ident, dropbox_path = ?path, dropbox_url = u, uploaded_at = t\<rparr>]"
      and e: "storage w' = (storage w3)(sp := None)"
    by blast
  have c': "study_materials w' =
               map (\<lambda>m. if mat_id m = ident
                         then m\<lparr>attempts := Some (attempts_or_0 material + 1),
                                processing_status := ''done'', processing_error := None,
                                processed_url := Some u, file_url := Some u,
                                approval_status := ''approved''\<rparr>
                         else m) (study_materials w)"
    using c j m1 by (simp add: job_state_def)
  have d': "file_records w' = file_records w
               @ [\<lparr>material_id = ident, dropbox_path = ?path, dropbox_url = u, uploaded_at = t\<rparr>]"
    using d j f1 by (simp add: job_state_def)
  have e': "storage w' = (storage w)(sp := None)"
    using e j s1 by (simp add: job_state_def)
  show ?thesis using a b c' d' e' by blast
qed

text \<open>
  Claim C2, as the code has it. For a job that is found with \<open>attempts = 0\<close> and a
  \<open>storage_path\<close>, in a store that takes the writes of the job: when the handler answers
  200, the job's row has \<open>attempts = 1\<close>, \<open>processing_status = done\<close> and a
  \<open>processed_url\<close> that is the shared link the provider answered with its first \<open>?dl=0\<close>
  replaced by \<open>?dl=1\<close> (the host is left as the provider gave it); the source bytes are
  removed from the storage; and exactly one row is added to \<open>file_records\<close>, for this job
  and with that URL.
\<close>

theorem processMaterial_success:
  assumes found: "select_material env ident w = (Some material, w1)"
      and fresh: "attempts material = Some 0"
      and sp: "storage_path material = Some sp"
      and ok: "fst (processMaterial env ident w) = Json 200 body"
      and writes: "\<forall>tr. store_fault env tr (UpdateMaterial ident) = None"
                  "\<forall>tr. store_fault env tr (InsertFileRecord ident) = None"
                  "\<forall>tr. store_fault env tr (StorageRemove (Some sp)) = None"
  shows "\<exists>url tr tok path_lower path t.
           provider_create_shared_link env tr tok path_lower = Inr url
         \<and> body = [(''message'', ''Processing complete''),
                    (''dropboxUrl'', js_replace url ''?dl=0'' ''?dl=1'')]
         \<and> study_materials (snd (processMaterial env ident w)) =
               map (\<lambda>m. if mat_id m = ident
                         then m\<lparr>attempts := Some 1,
                                processing_status := ''done'', processing_error := None,
                                processed_url := Some (js_replace url ''?dl=0'' ''?dl=1''),
                                file_url := Some (js_replace url ''?dl=0'' ''?dl=1''),
                                approval_status := ''approved''\<rparr>
                         else m) (study_materials w)
         \<and> file_records (snd (processMaterial env ident w)) = file_records w
               @ [\<lparr>material_id = ident, dropbox_path = path,
                   dropbox_url = js_replace url ''?dl=0'' ''?dl=1'', uploaded_at = t\<rparr>]
         \<and> storage (snd (processMaterial env ident w)) = (storage w)(sp := None)"
proof -
  have nr: "\<not> max_retries_reached material" and a0: "attempts_or_0 material + 1 = 1"
    using fresh by (simp_all add: max_retries_reached_def attempts_or_0_def)
  have w1: "w1 = record_event (SelectMaterial ident) w"
    using select_material_world [OF found] .
  obtain r2 w2 where st: "processMaterialSteps env ident material w1 = (r2, w2)"
    by (cases "processMaterialSteps env ident material w1")
  from ok found nr st obtain u where r2: "r2 = Inr u"
    and body: "body = [(''message'', ''Processing complete''), (''dropboxUrl'', u)]"
    and w': "snd (processMaterial env ident w) = w2"
    by (auto simp: processMaterial_def split: all_splits)
  from processMaterialSteps_success [OF st [unfolded r2] sp writes]
  show ?thesis
    unfolding w' body a0 w1 by (simp add: record_event_def) blast
qed

theorem processMaterial_success_witness:
  "select_material demo_env ''abc'' demo_world
     = (Some demo_material, record_event (SelectMaterial ''abc'') demo_world)
   \<and> attempts demo_material = Some 0
   \<and> storage_path demo_material = Some ''materials/x.pdf''
   \<and> fst (processMaterial demo_env ''abc'' demo_world)
       = Json 200 [(''message'', ''Processing complete''),
                   (''dropboxUrl'', ''https://www.dropbox.com/s/campus-files/6_x.pdf?dl=1'')]
   \<and> (\<exists>url tr tok path_lower path t.
           provider_create_shared_link demo_env tr tok path_lower = Inr url
         \<and> [(''message'', ''Processing complete''),
             (''dropboxUrl'', ''https://www.dropbox.com/s/campus-files/6_x.pdf?dl=1'')]
            = [(''message'', ''Processing complete''),
               (''dropboxUrl'', js_replace url ''?dl=0'' ''?dl=1'')]
         \<and> study_materials (snd (processMaterial demo_env ''abc'' demo_world)) =
               map (\<lambda>m. if mat_id m = ''abc''
                         then m\<lparr>attempts := Some 1,
                                processing_status := ''done'', processing_error := None,
                                processed_url := Some (js_replace url ''?dl=0'' ''?dl=1''),
                                file_url := Some (js_replace url ''?dl=0'' ''?dl=1''),
                                approval_status := ''approved''\<rparr>
                         else m) (study_materials demo_world)
         \<and> file_records (snd (processMaterial demo_env ''abc'' demo_world)) =
               file_records demo_world
               @ [\<lparr>material_id = ''abc'', dropbox_path = path,
                   dropbox_url = js_replace url ''?dl=0'' ''?dl=1'', uploaded_at = t\<rparr>]
         \<and> storage (snd (processMaterial demo_env ''abc'' demo_world))
             = (storage demo_world)(''materials/x.pdf'' := None))"
proof -
  have found: "select_material demo_env ''abc'' demo_world
     = (Some demo_material, record_event (SelectMaterial ''abc'') demo_world)"
    by (simp add: sample_defs select_material_def call_defs)
  have fresh: "attempts demo_material = Some 0"
    and sp: "storage_path demo_material = Some ''materials/x.pdf''"
    by (simp_all add: demo_material_def)
  have ok: "fst (processMaterial demo_env ''abc'' demo_world)
       = Json 200 [(''message'', ''Processing complete''),
                   (''dropboxUrl'', ''https://www.dropbox.com/s/campus-files/6_x.pdf?dl=1'')]"
    by (simp add: demo_run)
  have writes: "\<forall>tr. store_fault demo_env tr (UpdateMaterial ''abc'') = None"
    "\<forall>tr. store_fault demo_env tr (InsertFileRecord ''abc'') = None"
    "\<forall>tr. store_fault demo_env tr (StorageRemove (Some ''materials/x.pdf'')) = None"
    by (simp_all add: demo_env_def)
  show ?thesis
    using found fresh sp ok processMaterial_success [OF found fresh sp ok writes]
    by (intro conjI) assumption+
qed

text \<open>
  Claim C2, as the specification has it, fails on the host: the provider answers the link
  \<open>https://www.dropbox.com/s/campus-files/6_x.pdf?dl=0\<close>, and the job of id \<open>abc\<close> ends
  with that host in its \<open>processed_url\<close>, not with the URL that the rewriting of
  \<open>createSharedLinkDirect\<close> gives.
\<close>

theorem processMaterial_success_counterexample:
  "fst (processMaterial demo_env ''abc'' demo_world)
     = Json 200 [(''message'', ''Processing complete''),
                 (''dropboxUrl'', ''https://www.dropbox.com/s/campus-files/6_x.pdf?dl=1'')]
   \<and> map attempts (study_materials (snd (processMaterial demo_env ''abc'' demo_world))) = [Some 1]
   \<and> map processed_url (study_materials (snd (processMaterial demo_env ''abc'' demo_world)))
       = [Some ''https://www.dropbox.com/s/campus-files/6_x.pdf?dl=1'']
   \<and> direct_url ''https://www.dropbox.com/s/campus-files/6_x.pdf?dl=0''
       = ''https://dl.dropboxusercontent.com/s/campus-files/6_x.pdf''
   \<and> map processed_url (study_materials (snd (processMaterial demo_env ''abc'' demo_world)))
       \<noteq> [Some ''https://dl.dropboxusercontent.com/s/campus-files/6_x.pdf'']"
  by (simp add: demo_run demo_material_def direct_url_def)

section \<open>The upload and its one retry\<close>

lemma uploadToDropbox_retry:
  assumes "provider_upload env (trace w) tok path c = Inl err"
  shows "uploadToDropbox env acc tok path c w =
           (case retry_credential env acc err (record_event (FilesUpload tok path c) w) of
              (Inl e, w3) \<Rightarrow> (Inl e, w3)
            | (Inr tok2, w3) \<Rightarrow> filesUpload env tok2 path c w3)"
  using assms
  by (simp add: uploadToDropbox_def filesUpload_def retry_credential_def split: all_splits)

lemma uploadAndPublish_error:
  "fst (uploadToDropbox env acc tok path c w) = Inl e \<Longrightarrow>
   uploadAndPublish env ident material acc tok path c w = uploadToDropbox env acc tok path c w"
  by (cases "uploadToDropbox env acc tok path c w") (simp add: uploadAndPublish_def)

lemma processMaterial_catch:
  assumes "select_material env ident w0 = (Some material, w1)"
      and "\<not> max_retries_reached material"
      and "processMaterialSteps env ident material w1 = (Inl err, w2)"
  shows "fst (processMaterial env ident w0)
           = Json 500 [(''error'', ''Processing failed''), (''details'', message_or_string err)]"
    and "study_materials (snd (processMaterial env ident w0))
           = (case store_fault env (trace w2) (UpdateMaterial ident) of
                None \<Rightarrow> map (\<lambda>m. if mat_id m = ident
                                 then m\<lparr>processing_status := ''failed'',
                                        processing_error := Some (message err)\<rparr>
                                 else m) (study_materials w2)
              | Some m \<Rightarrow> study_materials w2)"
  using assms
  by (auto simp: processMaterial_def split: all_splits dest!: update_materials_eq)

lemma processMaterial_catch_world:
  assumes "select_material env ident w_in = (Some material, wa)"
      and "\<not> max_retries_reached material"
      and "processMaterialSteps env ident material wa = (Inl err, wx)"
  shows "content_calls (snd (processMaterial env ident w_in)) = content_calls wx"
  using assms
  by (auto simp: processMaterial_def split: all_splits dest!: update_materials_eq)

lemma processMaterialSteps_reach_upload:
  assumes "update_materials env ident
             (\<lambda>m. m\<lparr>attempts := Some (attempts_or_0 material + 1),
                    processing_status := ''processing'', processing_error := None\<rparr>) wa = (r, wb)"
      and "downloadFromSupabase env (storage_path material) wb = (Inr compressedPDF, wc)"
      and "getDropboxTokenFromDB env wc = (Inr (dropboxToken, accountId), w)"
      and "storage_path material = Some sp"
  shows "processMaterialSteps env ident material wa =
           uploadAndPublish env ident material accountId dropboxToken
             (''/campus-files/'' @ decimal (clock env (trace w)) @ ''_'' @ js_pop (js_split (CHR ''/'') sp))
             compressedPDF w"
  using assms by (simp add: processMaterialSteps_def Let_def)

text \<open>
  Claim C5, as the code has it. Take a run of the handler that reaches the upload of
  step 7 (the job is found with fewer than three attempts, the download succeeds and
  \<open>getDropboxTokenFromDB\<close> answers) and whose first upload fails. The handler fetches the
  account row again by id and runs \<open>ensureAccessToken\<close> on it (\<open>retry_credential\<close>). If
  there is no row the first error is thrown again, and if \<open>ensureAccessToken\<close> fails its
  error is thrown: in both cases the only upload call of the step is the first one.
  Otherwise the step is one second upload with the credential that \<open>ensureAccessToken\<close>
  answered, refreshed or not, and its result is the result of that second call. Whenever
  the upload step ends with an error, the handler answers 500 with that error, the job's
  rows are those step 3 left with \<open>processing_status = failed\<close> and the error's message
  (when the store takes that update), and the run makes no call to the provider's content
  interface after those of the upload step: there is no further retry.
\<close>

theorem upload_retry_policy:
  assumes found: "select_material env ident w_in = (Some material, wa)"
      and open_job: "\<not> max_retries_reached material"
      and step3: "update_materials env ident
             (\<lambda>m. m\<lparr>attempts := Some (attempts_or_0 material + 1),
                    processing_status := ''processing'', processing_error := None\<rparr>) wa = (r, wb)"
      and step4: "downloadFromSupabase env (storage_path material) wb = (Inr compressedPDF, wc)"
      and step6: "getDropboxTokenFromDB env wc = (Inr (dropboxToken, accountId), w)"
      and sp: "storage_path material = Some sp"
      and path: "dropboxPath = ''/campus-files/'' @ decimal (clock env (trace w)) @ ''_''
                               @ js_pop (js_split (CHR ''/'') sp)"
      and first: "provider_upload env (trace w) dropboxToken dropboxPath compressedPDF = Inl first_err"
  shows "(case retry_credential env accountId first_err
                (record_event (FilesUpload dropboxToken dropboxPath compressedPDF) w) of
            (Inl e2, wr) \<Rightarrow>
              uploadToDropbox env accountId dropboxToken dropboxPath compressedPDF w = (Inl e2, wr)
              \<and> content_calls wr = content_calls w @ [FilesUpload dropboxToken dropboxPath compressedPDF]
          | (Inr tok2, wr) \<Rightarrow>
              uploadToDropbox env accountId dropboxToken dropboxPath compressedPDF w
                = filesUpload env tok2 dropboxPath compressedPDF wr
              \<and> content_calls (snd (uploadToDropbox env accountId dropboxToken dropboxPath compressedPDF w))
                = content_calls w @ [FilesUpload dropboxToken dropboxPath compressedPDF,
                                     FilesUpload tok2 dropboxPath compressedPDF])
       \<and> (case uploadToDropbox env accountId dropboxToken dropboxPath compressedPDF w of
            (Inl err, wx) \<Rightarrow>
              fst (processMaterial env ident w_in)
                = Json 500 [(''error'', ''Processing failed''), (''details'', message_or_string err)]
              \<and> study_materials (snd (processMaterial env ident w_in))
                = (case store_fault env (trace wx) (UpdateMaterial ident) of
                     None \<Rightarrow> map (\<lambda>m. if mat_id m = ident
                                      then m\<lparr>processing_status := ''failed'',
                                             processing_error := Some (message err)\<rparr>
                                      else m) (study_materials wb)
                   | Some e \<Rightarrow> study_materials wb)
              \<and> content_calls (snd (processMaterial env ident w_in)) = content_calls wx
          | (Inr path_lower, wx) \<Rightarrow> True)"
proof -
  let ?w1 = "record_event (FilesUpload dropboxToken dropboxPath compressedPDF) w"
  obtain rr wr where rc: "retry_credential env accountId first_err ?w1 = (rr, wr)"
    by (cases "retry_credential env accountId first_err ?w1")
  have c1: "content_calls ?w1 = content_calls w @ [FilesUpload dropboxToken dropboxPath compressedPDF]"
    by (simp add: content_calls_def record_event_def)
  have c3: "content_calls wr = content_calls ?w1"
    using retry_credential_frame [OF rc] by (simp add: accounts_only_def)
  have retry: "case retry_credential env accountId first_err ?w1 of
            (Inl e2, wr) \<Rightarrow>
              uploadToDropbox env accountId dropboxToken dropboxPath compressedPDF w = (Inl e2, wr)
              \<and> content_calls wr = content_calls w @ [FilesUpload dropboxToken dropboxPath compressedPDF]
          | (Inr tok2, wr) \<Rightarrow>
              uploadToDropbox env accountId dropboxToken dropboxPath compressedPDF w
                = filesUpload env tok2 dropboxPath compressedPDF wr
              \<and> content_calls (snd (uploadToDropbox env accountId dropboxToken dropboxPath compressedPDF w))
                = content_calls w @ [FilesUpload dropboxToken dropboxPath compressedPDF,
                                     FilesUpload tok2 dropboxPath compressedPDF]"
  proof (cases rr)
    case (Inl e2)
    then show ?thesis
      using rc c1 c3 uploadToDropbox_retry [OF first, of accountId] by simp
  next
    case (Inr tok2)
    have "content_calls (snd (filesUpload env tok2 dropboxPath compressedPDF wr))
            = content_calls wr @ [FilesUpload tok2 dropboxPath compressedPDF]"
      by (simp add: filesUpload_def content_calls_def record_event_def)
    then show ?thesis
      using Inr rc c1 c3 uploadToDropbox_retry [OF first, of accountId] by simp
  qed
  have reach: "processMaterialSteps env ident material wa =
                 uploadAndPublish env ident material accountId dropboxToken dropboxPath compressedPDF w"
    using processMaterialSteps_reach_upload [OF step3 step4 step6 sp] path by simp
  have failed: "case uploadToDropbox env accountId dropboxToken dropboxPath compressedPDF w of
            (Inl err, wx) \<Rightarrow>
              fst (processMaterial env ident w_in)
                = Json 500 [(''error'', ''Processing failed''), (''details'', message_or_string err)]
              \<and> study_materials (snd (processMaterial env ident w_in))
                = (case store_fault env (trace wx) (UpdateMaterial ident) of
                     None \<Rightarrow> map (\<lambda>m. if mat_id m = ident
                                      then m\<lparr>processing_status := ''failed'',
                                             processing_error := Some (message err)\<rparr>
                                      else m) (study_materials wb)
                   | Some e \<Rightarrow> study_materials wb)
              \<and> content_calls (snd (processMaterial env ident w_in)) = content_calls wx
          | (Inr path_lower, wx) \<Rightarrow> True"
  proof (cases "uploadToDropbox env accountId dropboxToken dropboxPath compressedPDF w")
    case (Pair res wx)
    show ?thesis
    proof (cases res)
      case (Inr path_lower)
      then show ?thesis using Pair by simp
    next
      case (Inl err)
      have up: "uploadToDropbox env accountId dropboxToken dropboxPath compressedPDF w = (Inl err, wx)"
        using Pair Inl by simp
      have "uploadAndPublish env ident material accountId dropboxToken dropboxPath compressedPDF w
              = (Inl err, wx)"
        using uploadAndPublish_error [of env accountId dropboxToken dropboxPath compressedPDF w err
                ident material] up by simp
      then have steps: "processMaterialSteps env ident material wa = (Inl err, wx)"
        using reach by simp
      have "job_state wx = job_state w"
        using uploadToDropbox_frame [OF up] .
      moreover have "job_state w = job_state wb"
        using downloadFromSupabase_frame [OF step4] getDropboxTokenFromDB_frame [OF step6]
        by (simp add: accounts_only_def)
      ultimately have same: "study_materials wx = study_materials wb"
        by (simp add: job_state_def)
      show ?thesis
        using up same processMaterial_catch [OF found open_job steps]
          processMaterial_catch_world [OF found open_job steps]
        by (simp split: option.splits)
    qed
  qed
  show ?thesis
    by (rule conjI [OF retry failed])
qed

lemma full_run:
  "uploadToDropbox full_env ''a1'' ''live'' ''/campus-files/6_x.pdf'' [37, 80, 68, 70] upload_world =
     (Inl (Error ''DropboxResponseError'' ''insufficient_space''),
      upload_world\<lparr>dropbox_accounts := [demo_account\<lparr>last_used := 9\<rparr>],
                 trace := trace upload_world
                          @ [FilesUpload ''live'' ''/campus-files/6_x.pdf'' [37, 80, 68, 70],
                             SelectAccountById ''a1'', UsersGetCurrentAccount ''live'',
                             UpdateAccount ''a1'',
                             FilesUpload ''live'' ''/campus-files/6_x.pdf'' [37, 80, 68, 70]]\<rparr>)"
  by (simp add: model_defs sample_defs upload_world_def)

theorem upload_retry_policy_witness:
  "select_material full_env ''abc'' demo_world
     = (Some demo_material, record_event (SelectMaterial ''abc'') demo_world)
   \<and> getDropboxTokenFromDB full_env
        (demo_world\<lparr>study_materials :=
                       [demo_material\<lparr>attempts := Some 1, processing_status := ''processing''\<rparr>],
                    trace := [SelectMaterial ''abc'', UpdateMaterial ''abc'',
                              StorageDownload (Some ''materials/x.pdf'')]\<rparr>)
       = (Inr (''live'', ''a1''), upload_world)
   \<and> provider_upload full_env (trace upload_world) ''live'' ''/campus-files/6_x.pdf'' [37, 80, 68, 70]
       = Inl (Error ''DropboxResponseError'' ''insufficient_space'')
   \<and> fst (uploadToDropbox full_env ''a1'' ''live'' ''/campus-files/6_x.pdf'' [37, 80, 68, 70]
             upload_world)
       = Inl (Error ''DropboxResponseError'' ''insufficient_space'')
   \<and> fst (processMaterial full_env ''abc'' demo_world)
       = Json 500 [(''error'', ''Processing failed''), (''details'', ''insufficient_space'')]
   \<and> study_materials (snd (processMaterial full_env ''abc'' demo_world))
       = [demo_material\<lparr>attempts := Some 1, processing_status := ''failed'',
                        processing_error := Some ''insufficient_space''\<rparr>]
   \<and> content_calls (snd (processMaterial full_env ''abc'' demo_world))
       = [FilesUpload ''live'' ''/campus-files/6_x.pdf'' [37, 80, 68, 70],
          FilesUpload ''live'' ''/campus-files/6_x.pdf'' [37, 80, 68, 70]]"
proof -
  let ?wa = "record_event (SelectMaterial ''abc'') demo_world"
  let ?wb = "demo_world\<lparr>study_materials :=
                       [demo_material\<lparr>attempts := Some 1, processing_status := ''processing''\<rparr>],
                    trace := [SelectMaterial ''abc'', UpdateMaterial ''abc'']\<rparr>"
  let ?wc = "demo_world\<lparr>study_materials :=
                       [demo_material\<lparr>attempts := Some 1, processing_status := ''processing''\<rparr>],
                    trace := [SelectMaterial ''abc'', UpdateMaterial ''abc'',
                              StorageDownload (Some ''materials/x.pdf'')]\<rparr>"
  have found: "select_material full_env ''abc'' demo_world = (Some demo_material, ?wa)"
    by (simp add: sample_defs select_material_def call_defs)
  have open_job: "\<not> max_retries_reached demo_material"
    by (simp add: max_retries_reached_def demo_material_def)
  have step3: "update_materials full_env ''abc''
             (\<lambda>m. m\<lparr>attempts := Some (attempts_or_0 demo_material + 1),
                    processing_status := ''processing'', processing_error := None\<rparr>) ?wa = (None, ?wb)"
    by (simp add: sample_defs update_materials_def call_defs attempts_or_0_def)
  have step4: "downloadFromSupabase full_env (storage_path demo_material) ?wb
                 = (Inr [37, 80, 68, 70], ?wc)"
    by (simp add: sample_defs downloadFromSupabase_def storage_download_def call_defs)
  have step6: "getDropboxTokenFromDB full_env ?wc = (Inr (''live'', ''a1''), upload_world)"
    by (simp add: sample_defs upload_world_def getDropboxTokenFromDB_def selectDropboxAccount_def
          ensureAccessToken_def call_defs)
  have sp: "storage_path demo_material = Some ''materials/x.pdf''"
    by (simp add: demo_material_def)
  have path: "''/campus-files/6_x.pdf'' = ''/campus-files/'' @ decimal (clock full_env (trace upload_world))
                @ ''_'' @ js_pop (js_split (CHR ''/'') ''materials/x.pdf'')"
    by (simp add: sample_defs upload_world_def js_pop_def decimal_digit digit_char_def)
  have first: "provider_upload full_env (trace upload_world) ''live'' ''/campus-files/6_x.pdf''
                 [37, 80, 68, 70] = Inl (Error ''DropboxResponseError'' ''insufficient_space'')"
    by (simp add: sample_defs)
  have faults: "store_fault full_env tr e = None" for tr e
    by (simp add: sample_defs)
  have calls: "content_calls upload_world = []"
    by (simp add: content_calls_def upload_world_def)
  have wb: "study_materials ?wb
              = [demo_material\<lparr>attempts := Some 1, processing_status := ''processing''\<rparr>]"
    by simp
  have mid: "mat_id demo_material = ''abc''"
    by (simp add: demo_material_def)
  show ?thesis
    using found step6 first full_run
      upload_retry_policy [OF found open_job step3 step4 step6 sp path first]
    by (simp add: faults wb mid message_or_string_def content_calls_def upload_world_def)
qed

text \<open>
  Claim C5, as the specification has it, fails: the provider rejects the first upload of
  the job \<open>abc\<close> and the credential \<open>live\<close> still passes the liveness check, so the second
  \<open>ensureAccessToken\<close> refreshes nothing. The run makes no refresh call, and its second
  upload carries the credential of the first.
\<close>

theorem upload_retry_counterexample:
  "provider_upload flaky_env
     [SelectMaterial ''abc'', UpdateMaterial ''abc'', StorageDownload (Some ''materials/x.pdf''),
      SelectAccounts, UsersGetCurrentAccount ''live'', UpdateAccount ''a1'']
     ''live'' ''/campus-files/6_x.pdf'' [37, 80, 68, 70] = Inl (Error ''DropboxResponseError'' ''too_many_write_operations'')
   \<and> content_calls (snd (processMaterial flaky_env ''abc'' demo_world))
       = [FilesUpload ''live'' ''/campus-files/6_x.pdf'' [37, 80, 68, 70],
          FilesUpload ''live'' ''/campus-files/6_x.pdf'' [37, 80, 68, 70],
          CreateSharedLink ''live'' ''/campus-files/6_x.pdf'']
   \<and> refresh_calls (snd (processMaterial flaky_env ''abc'' demo_world)) = []"
proof -
  have first_fails: "provider_upload flaky_env
     [SelectMaterial ''abc'', UpdateMaterial ''abc'', StorageDownload (Some ''materials/x.pdf''),
      SelectAccounts, UsersGetCurrentAccount ''live'', UpdateAccount ''a1'']
     ''live'' ''/campus-files/6_x.pdf'' [37, 80, 68, 70] = Inl (Error ''DropboxResponseError'' ''too_many_write_operations'')"
    by (simp add: flaky_env_def demo_env_def)
  have uploads: "content_calls (snd (processMaterial flaky_env ''abc'' demo_world))
       = [FilesUpload ''live'' ''/campus-files/6_x.pdf'' [37, 80, 68, 70],
          FilesUpload ''live'' ''/campus-files/6_x.pdf'' [37, 80, 68, 70],
          CreateSharedLink ''live'' ''/campus-files/6_x.pdf'']"
    by (simp add: content_calls_def flaky_run)
  have refreshes: "refresh_calls (snd (processMaterial flaky_env ''abc'' demo_world)) = []"
    by (simp add: refresh_calls_def flaky_run)
  show ?thesis
    by (rule conjI [OF first_fails conjI [OF uploads refreshes]])
qed

section \<open>The shared link after a retry\<close>

text \<open>
  Claim C8. When the first upload fails, the account row is fetched again,
  \<open>ensureAccessToken\<close> answers with a credential and the second upload, made with that
  credential, succeeds, the calls of steps 7 to 9 to the provider's content interface are
  the two uploads and then one creation of a shared link, for the path the second upload
  answered, with \<open>dropboxToken\<close>: the credential of the first upload, not the one that
  \<open>ensureAccessToken\<close> answered.
\<close>

theorem shared_link_uses_original_credential:
  assumes "provider_upload env (trace w) dropboxToken dropboxPath compressedPDF = Inl msg"
      and "select_account_by_id env accountId
             (record_event (FilesUpload dropboxToken dropboxPath compressedPDF) w)
             = (Some accountRow, w2)"
      and "ensureAccessToken env accountRow w2 = (Inr refreshed, w3)"
      and "provider_upload env (trace w3) (res_accessToken refreshed) dropboxPath compressedPDF
             = Inr path_lower"
  shows "content_calls
           (snd (uploadAndPublish env ident material accountId dropboxToken dropboxPath compressedPDF w))
           = content_calls w @ [FilesUpload dropboxToken dropboxPath compressedPDF,
                                FilesUpload (res_accessToken refreshed) dropboxPath compressedPDF,
                                CreateSharedLink dropboxToken path_lower]"
proof -
  let ?w1 = "record_event (FilesUpload dropboxToken dropboxPath compressedPDF) w"
  let ?w4 = "record_event (FilesUpload (res_accessToken refreshed) dropboxPath compressedPDF) w3"
  have up: "uploadToDropbox env accountId dropboxToken dropboxPath compressedPDF w
              = (Inr path_lower, ?w4)"
    using assms by (simp add: uploadToDropbox_def filesUpload_def)
  have c1: "content_calls ?w1 = content_calls w @ [FilesUpload dropboxToken dropboxPath compressedPDF]"
    by (simp add: content_calls_def record_event_def)
  have c3: "content_calls w3 = content_calls ?w1"
    using select_account_by_id_frame [OF assms(2)] ensureAccessToken_frame [OF assms(3)]
    by (simp add: accounts_only_def)
  have c4: "content_calls ?w4
              = content_calls w3 @ [FilesUpload (res_accessToken refreshed) dropboxPath compressedPDF]"
    by (simp add: content_calls_def record_event_def)
  obtain r5 w5
    where link: "sharingCreateSharedLinkWithSettings env dropboxToken path_lower ?w4 = (r5, w5)"
    by (cases "sharingCreateSharedLinkWithSettings env dropboxToken path_lower ?w4")
  have c5: "content_calls w5 = content_calls ?w4 @ [CreateSharedLink dropboxToken path_lower]"
    using sharingCreate_eq [OF link] by simp
  have rest: "content_calls
                (snd (uploadAndPublish env ident material accountId dropboxToken dropboxPath compressedPDF w))
                = content_calls w5"
    using up link incrementDropboxBytesUsed_frame
    by (auto simp: uploadAndPublish_def Let_def accounts_only_def split: all_splits
        dest!: insert_file_record_eq update_materials_eq storage_remove_eq)
  show ?thesis
    using rest c5 c4 c3 c1 by simp
qed

theorem shared_link_uses_original_credential_witness:
  "provider_upload fresh_only_env (trace stale_world) ''stale'' ''/p'' [1]
     = Inl (Error ''DropboxResponseError'' ''expired_access_token'')
   \<and> ensureAccessToken fresh_only_env stale_account
        (record_event (SelectAccountById ''a1'')
           (record_event (FilesUpload ''stale'' ''/p'' [1]) stale_world))
       = (Inr \<lparr>res_accountRow = stale_account\<lparr>access_token := Some ''fresh''\<rparr>,
               res_accessToken = ''fresh''\<rparr>,
          stale_world\<lparr>dropbox_accounts :=
                        [stale_account\<lparr>access_token := Some ''fresh'', last_used := 4\<rparr>],
                      trace := [FilesUpload ''stale'' ''/p'' [1], SelectAccountById ''a1'',
                                UsersGetCurrentAccount ''stale'',
                                OAuth2Token ''r1'' ''key1'' ''sec0'', UpdateAccount ''a1'']\<rparr>)
   \<and> content_calls
        (snd (uploadAndPublish fresh_only_env ''abc'' demo_material ''a1'' ''stale'' ''/p'' [1]
                stale_world))
       = [FilesUpload ''stale'' ''/p'' [1], FilesUpload ''fresh'' ''/p'' [1],
          CreateSharedLink ''stale'' ''/p'']"
proof -
  let ?w2 = "record_event (SelectAccountById ''a1'')
               (record_event (FilesUpload ''stale'' ''/p'' [1]) stale_world)"
  let ?w3 = "stale_world\<lparr>dropbox_accounts :=
                        [stale_account\<lparr>access_token := Some ''fresh'', last_used := 4\<rparr>],
                      trace := [FilesUpload ''stale'' ''/p'' [1], SelectAccountById ''a1'',
                                UsersGetCurrentAccount ''stale'',
                                OAuth2Token ''r1'' ''key1'' ''sec0'', UpdateAccount ''a1'']\<rparr>"
  let ?res = "\<lparr>res_accountRow = stale_account\<lparr>access_token := Some ''fresh''\<rparr>,
               res_accessToken = ''fresh''\<rparr>"
  have h1: "provider_upload fresh_only_env (trace stale_world) ''stale'' ''/p'' [1]
              = Inl (Error ''DropboxResponseError'' ''expired_access_token'')"
    by (simp add: sample_defs)
  have h2: "select_account_by_id fresh_only_env ''a1''
              (record_event (FilesUpload ''stale'' ''/p'' [1]) stale_world)
              = (Some stale_account, ?w2)"
    by (simp add: sample_defs select_account_by_id_def call_defs)
  have h3: "ensureAccessToken fresh_only_env stale_account ?w2 = (Inr ?res, ?w3)"
    by (simp add: sample_defs ensureAccessToken_def call_defs js_or_def)
  have h4: "provider_upload fresh_only_env (trace ?w3) (res_accessToken ?res) ''/p'' [1] = Inr ''/p''"
    by (simp add: sample_defs)
  have empty: "content_calls stale_world = []"
    by (simp add: content_calls_def sample_defs)
  show ?thesis
    using h1 h3 shared_link_uses_original_credential
                  [OF h1 h2 h3 h4, of "''abc''" demo_material]
    by (simp add: empty)
qed


end
